theory Spec2Isabelle
  imports Main
begin

section \<open>Enumerations of \<^verbatim>\<open>smt.h\<close>\<close>

datatype Opcode =
    LNOT | NOT | SUB | AND | OR | XOR | LAND | LOR | IMP | EQL
  | ADD | MUL | QUO | REM | LSS | GTR | NEQ | LEQ | GEQ

datatype ExprKind =
    LITERAL_EXPR_KIND
  | UNARY_EXPR_KIND
  | BINARY_EXPR_KIND
  | NARY_EXPR_KIND
  | CONST_ARRAY_EXPR_KIND
  | ARRAY_SELECT_EXPR_KIND
  | ARRAY_STORE_EXPR_KIND
  | CONSTANT_EXPR_KIND
  | FUNC_APP_EXPR_KIND

text \<open>
  The two ways a call of the library stops without a result: a failed \<^verbatim>\<open>assert\<close>
  (the process aborts; assertions are taken to be compiled in) and the
  \<^verbatim>\<open>std::out_of_range\<close> exception thrown by \<^verbatim>\<open>Sort::check_sorts_index\<close>.
\<close>

datatype failure = Assertion_Abort | Out_Of_Range

section \<open>Static types\<close>

text \<open>
  The integral C++ types a bit vector can be built over (the ones the solver interface
  has a literal hook for). \<^verbatim>\<open>sizeof\<close> and \<^verbatim>\<open>std::is_signed\<close> are fixed by the
  platform; the values below are those of x86-64 Linux (LP64).
\<close>

datatype ctype =
    c_bool | c_char | c_signed_char | c_unsigned_char | c_wchar_t | c_char16_t | c_char32_t
  | c_short | c_unsigned_short | c_int | c_unsigned_int | c_long | c_unsigned_long
  | c_long_long | c_unsigned_long_long

fun sizeof :: "ctype \<Rightarrow> nat" where
  "sizeof c_bool = 1"
| "sizeof c_char = 1"
| "sizeof c_signed_char = 1"
| "sizeof c_unsigned_char = 1"
| "sizeof c_wchar_t = 4"
| "sizeof c_char16_t = 2"
| "sizeof c_char32_t = 4"
| "sizeof c_short = 2"
| "sizeof c_unsigned_short = 2"
| "sizeof c_int = 4"
| "sizeof c_unsigned_int = 4"
| "sizeof c_long = 8"
| "sizeof c_unsigned_long = 8"
| "sizeof c_long_long = 8"
| "sizeof c_unsigned_long_long = 8"

fun is_signed_c :: "ctype \<Rightarrow> bool" where
  "is_signed_c c_char = True"
| "is_signed_c c_signed_char = True"
| "is_signed_c c_wchar_t = True"
| "is_signed_c c_short = True"
| "is_signed_c c_int = True"
| "is_signed_c c_long = True"
| "is_signed_c c_long_long = True"
| "is_signed_c _ = False"

definition is_integral_c :: "ctype \<Rightarrow> bool" where
  "is_integral_c c = True"

text \<open>
  The type parameter \<^verbatim>\<open>T\<close> of \<^verbatim>\<open>Term<T>\<close>, \<^verbatim>\<open>Expr<T>\<close>, \<^verbatim>\<open>Decl<T>\<close> and
  \<^verbatim>\<open>internal::sort<T>()\<close>: \<^verbatim>\<open>Bool\<close>, \<^verbatim>\<open>Int\<close>, \<^verbatim>\<open>Real\<close>, \<^verbatim>\<open>Bv<T>\<close>,
  \<^verbatim>\<open>Array<Domain, Range>\<close> and \<^verbatim>\<open>Func<T...>\<close>.
\<close>

datatype smt_type =
    Bool_t
  | Int_t
  | Real_t
  | Bv ctype
  | Array smt_type smt_type
  | Func "smt_type list"

section \<open>Sorts\<close>

text \<open>
  A \<^verbatim>\<open>Sort\<close> object is referred to by address (\<^verbatim>\<open>const Sort&\<close>, \<^verbatim>\<open>const Sort*\<close>).
  The objects with static storage duration that \<^verbatim>\<open>internal::sort<T>()\<close> returns are
  one per type, so the type names the address; every other \<^verbatim>\<open>Sort\<close> object (one the
  caller constructs) has a numbered address. The same holds for the arrays of sort
  pointers that \<^verbatim>\<open>m_sorts\<close> points to; \<^verbatim>\<open>Null_Sorts\<close> is \<^verbatim>\<open>nullptr\<close>.
\<close>

datatype sort_ptr = Static_Sort smt_type | Heap_Sort nat

datatype sorts_ptr = Null_Sorts | Static_Sorts smt_type | Heap_Sorts nat

record Sort =
  m_is_bool :: bool
  m_is_int :: bool
  m_is_real :: bool
  m_is_bv :: bool
  m_is_signed :: bool
  m_bv_size :: nat
  m_is_array :: bool
  m_is_func :: bool
  m_is_tuple :: bool
  m_sorts :: sorts_ptr
  m_sorts_size :: nat

text \<open>The constructor of a primitive sort.\<close>

definition Sort_primitive :: "bool \<Rightarrow> bool \<Rightarrow> bool \<Rightarrow> bool \<Rightarrow> bool \<Rightarrow> nat \<Rightarrow> Sort" where
  "Sort_primitive is_bool is_int is_real is_bv is_signed bv_size =
     \<lparr> m_is_bool = is_bool, m_is_int = is_int, m_is_real = is_real, m_is_bv = is_bv,
       m_is_signed = is_signed, m_bv_size = bv_size,
       m_is_array = False, m_is_func = False, m_is_tuple = False,
       m_sorts = Null_Sorts, m_sorts_size = 0 \<rparr>"

text \<open>
  The constructor of a composite sort, \<^verbatim>\<open>template<size_t N> Sort(bool is_func,
  bool is_array, bool is_tuple, const Sort* const (&sorts)[N])\<close>: it keeps the address
  of the array, not a copy of it.
\<close>

definition Sort_composite :: "bool \<Rightarrow> bool \<Rightarrow> bool \<Rightarrow> sorts_ptr \<Rightarrow> nat \<Rightarrow> Sort" where
  "Sort_composite is_func is_array is_tuple sorts N =
     \<lparr> m_is_bool = False, m_is_int = False, m_is_real = False, m_is_bv = False,
       m_is_signed = False, m_bv_size = 0,
       m_is_array = is_array, m_is_func = is_func, m_is_tuple = is_tuple,
       m_sorts = sorts, m_sorts_size = N \<rparr>"

subsection \<open>The registry \<^verbatim>\<open>internal::sort<T>()\<close>\<close>

text \<open>
  \<^verbatim>\<open>__Math<Array<Domain, Range>>::s_sorts\<close> and the array that
  \<^verbatim>\<open>__FuncSort\<close> builds for \<^verbatim>\<open>Func<T, U...>\<close> by appending the sort of each further
  type to the sort of the first.
\<close>

fun static_sorts :: "smt_type \<Rightarrow> sort_ptr list" where
  "static_sorts (Array D R) = [Static_Sort D, Static_Sort R]"
| "static_sorts (Func ts) = map Static_Sort ts"
| "static_sorts _ = []"

text \<open>
  \<^verbatim>\<open>__SortSwitch<T>::Type::s_sort\<close>. A \<^verbatim>\<open>Func<>\<close> without any type falls through to
  the primary template of \<^verbatim>\<open>__Math\<close>.
\<close>

fun static_sort :: "smt_type \<Rightarrow> Sort" where
  "static_sort Bool_t = Sort_primitive True False False False False 0"
| "static_sort Int_t = Sort_primitive False True False False False 0"
| "static_sort Real_t = Sort_primitive False False True False False 0"
| "static_sort (Bv T) =
     Sort_primitive False False False (is_integral_c T) (is_signed_c T) (8 * sizeof T)"
| "static_sort (Array D R) =
     Sort_composite False True False (Static_Sorts (Array D R)) 2"
| "static_sort (Func []) = Sort_primitive False False False False False 0"
| "static_sort (Func (T # U)) =
     Sort_composite True False False (Static_Sorts (Func (T # U))) (length U + 1)"

subsection \<open>Memory holding the sorts\<close>

record sort_memory =
  heap_sort :: "nat \<Rightarrow> Sort"
  heap_sorts :: "nat \<Rightarrow> sort_ptr list"

fun deref_sort :: "sort_memory \<Rightarrow> sort_ptr \<Rightarrow> Sort" where
  "deref_sort mem (Static_Sort T) = static_sort T"
| "deref_sort mem (Heap_Sort a) = heap_sort mem a"

fun deref_sorts :: "sort_memory \<Rightarrow> sorts_ptr \<Rightarrow> sort_ptr list" where
  "deref_sorts mem Null_Sorts = []"
| "deref_sorts mem (Static_Sorts T) = static_sorts T"
| "deref_sorts mem (Heap_Sorts a) = heap_sorts mem a"

subsection \<open>Nested sorts\<close>

definition sorts_size :: "Sort \<Rightarrow> nat" where
  "sorts_size s = m_sorts_size s"

definition check_sorts_index :: "Sort \<Rightarrow> nat \<Rightarrow> failure + nat" where
  "check_sorts_index s index =
     (if index \<ge> m_sorts_size s then Inl Out_Of_Range else Inr index)"

text \<open>
  \<^verbatim>\<open>return check_sorts_index(index), *m_sorts[index];\<close> The result is a reference,
  so the model returns the address stored at position \<open>index\<close>.
\<close>

definition sorts :: "sort_memory \<Rightarrow> Sort \<Rightarrow> nat \<Rightarrow> failure + sort_ptr" where
  "sorts mem s index =
     (case check_sorts_index s index of
        Inl e \<Rightarrow> Inl e
      | Inr _ \<Rightarrow> Inr (deref_sorts mem (m_sorts s) ! index))"

subsection \<open>Equality of sorts\<close>

text \<open>
  \<^verbatim>\<open>Sort::operator==\<close>, called on the objects at addresses \<open>this\<close> and \<open>other\<close>.
  The line \<^verbatim>\<open>m_sorts == other.m_sorts\<close> compares two pointers.
\<close>

definition Sort_eq :: "sort_memory \<Rightarrow> sort_ptr \<Rightarrow> sort_ptr \<Rightarrow> bool" where
  "Sort_eq mem this other =
     (if this = other then True
      else
        m_is_bool (deref_sort mem this) = m_is_bool (deref_sort mem other) \<and>
        m_is_int (deref_sort mem this) = m_is_int (deref_sort mem other) \<and>
        m_is_real (deref_sort mem this) = m_is_real (deref_sort mem other) \<and>
        m_is_bv (deref_sort mem this) = m_is_bv (deref_sort mem other) \<and>
        m_is_signed (deref_sort mem this) = m_is_signed (deref_sort mem other) \<and>
        m_bv_size (deref_sort mem this) = m_bv_size (deref_sort mem other) \<and>
        m_is_func (deref_sort mem this) = m_is_func (deref_sort mem other) \<and>
        m_is_array (deref_sort mem this) = m_is_array (deref_sort mem other) \<and>
        m_is_tuple (deref_sort mem this) = m_is_tuple (deref_sort mem other) \<and>
        m_sorts (deref_sort mem this) = m_sorts (deref_sort mem other) \<and>
        m_sorts_size (deref_sort mem this) = m_sorts_size (deref_sort mem other))"

text \<open>
  The comparison the specification describes: the two objects agree on the
  classification fields, and their sequences of nested sorts have the same length and
  are structurally equal element by element.
\<close>

definition same_classification :: "Sort \<Rightarrow> Sort \<Rightarrow> bool" where
  "same_classification a b \<longleftrightarrow>
     m_is_bool a = m_is_bool b \<and> m_is_int a = m_is_int b \<and> m_is_real a = m_is_real b \<and>
     m_is_bv a = m_is_bv b \<and> m_is_signed a = m_is_signed b \<and> m_bv_size a = m_bv_size b \<and>
     m_is_array a = m_is_array b \<and> m_is_func a = m_is_func b \<and> m_is_tuple a = m_is_tuple b"

inductive structurally_equal :: "sort_memory \<Rightarrow> sort_ptr \<Rightarrow> sort_ptr \<Rightarrow> bool"
  for mem :: sort_memory where
  same_object: "structurally_equal mem s s"
| same_structure:
    "same_classification (deref_sort mem s1) (deref_sort mem s2) \<Longrightarrow>
     m_sorts_size (deref_sort mem s1) = m_sorts_size (deref_sort mem s2) \<Longrightarrow>
     list_all2 (structurally_equal mem)
       (take (m_sorts_size (deref_sort mem s1)) (deref_sorts mem (m_sorts (deref_sort mem s1))))
       (take (m_sorts_size (deref_sort mem s2)) (deref_sorts mem (m_sorts (deref_sort mem s2)))) \<Longrightarrow>
     structurally_equal mem s1 s2"

text \<open>
  Two array sorts a caller builds over two separately allocated arrays, each holding
  the addresses of the registry's \<^verbatim>\<open>Int\<close> sort twice.
\<close>

definition two_arrays :: sort_memory where
  "two_arrays =
     \<lparr> heap_sort = (\<lambda>a. Sort_composite False True False (Heap_Sorts a) 2),
       heap_sorts = (\<lambda>a. [Static_Sort Int_t, Static_Sort Int_t]) \<rparr>"

section \<open>Declarations\<close>

record UnsafeDecl =
  m_symbol :: string
  m_decl_sort :: sort_ptr

text \<open>\<^verbatim>\<open>Decl<T>(symbol)\<close> passes \<^verbatim>\<open>internal::sort<T>()\<close> to its base.\<close>

definition Decl :: "smt_type \<Rightarrow> string \<Rightarrow> UnsafeDecl" where
  "Decl T symbol = \<lparr> m_symbol = symbol, m_decl_sort = Static_Sort T \<rparr>"

section \<open>Expression nodes and term handles\<close>

text \<open>
  A term handle (\<^verbatim>\<open>UnsafeTerm\<close>, \<^verbatim>\<open>Term<T>\<close>) wraps a shared pointer to a node:
  \<open>None\<close> is the null pointer, \<open>Some p\<close> points to the node at position \<open>p\<close> of the
  heap. A typed handle \<^verbatim>\<open>Term<T>\<close> holds the same pointer as the \<^verbatim>\<open>UnsafeTerm\<close> it
  converts to, so both are modelled by the pointer and \<open>T\<close> is passed where the C++
  template has it.
\<close>

type_synonym UnsafeTerm = "nat option"

type_synonym UnsafeTerms = "UnsafeTerm list"

text \<open>The data members of each node class, next to those of \<^verbatim>\<open>UnsafeExpr\<close>.\<close>

datatype members =
    Literal_members ctype int
  | Constant_members UnsafeDecl
  | FuncApp_members UnsafeDecl UnsafeTerms
  | Unary_members Opcode UnsafeTerm
  | Binary_members Opcode UnsafeTerm UnsafeTerm
  | Nary_members Opcode UnsafeTerms
  | ConstArray_members UnsafeTerm
  | ArraySelect_members UnsafeTerm UnsafeTerm
  | ArrayStore_members UnsafeTerm UnsafeTerm UnsafeTerm

text \<open>
  A node. \<open>expr_type\<close> records the dynamic type as far as a cast can see it: \<open>Some T\<close>
  for an object of a class derived from \<^verbatim>\<open>Expr<T>\<close> (each typed node class derives
  from exactly one), \<open>None\<close> for an object of one of the \<^verbatim>\<open>Unsafe...Expr\<close> classes.
\<close>

record UnsafeExpr =
  m_expr_kind :: ExprKind
  m_sort :: sort_ptr
  expr_type :: "smt_type option"
  m_members :: members

type_synonym heap = "UnsafeExpr list"

text \<open>\<^verbatim>\<open>new\<close> followed by wrapping the pointer in a handle.\<close>

definition new :: "heap \<Rightarrow> UnsafeExpr \<Rightarrow> UnsafeTerm \<times> heap" where
  "new h e = (Some (length h), h @ [e])"

definition is_null :: "UnsafeTerm \<Rightarrow> bool" where
  "is_null t \<longleftrightarrow> t = None"

text \<open>
  \<^verbatim>\<open>addr()\<close>. An \<^verbatim>\<open>UnsafeTerm\<close> holds a pointer to the virtual base
  \<^verbatim>\<open>UnsafeExpr\<close> of its node and a \<^verbatim>\<open>Term<T>\<close> a pointer to the \<^verbatim>\<open>Expr<T>\<close> base
  of its node, so \<^verbatim>\<open>UnsafeTerm::addr()\<close> and \<^verbatim>\<open>Term<T>::addr()\<close> return the
  addresses of two subobjects. Where an object lies and at which offsets its subobjects
  lie is decided by the compiler, not by the source: it is the parameter \<open>layout\<close>.
  The null pointer is address 0.
\<close>

record layout =
  object_address :: "nat \<Rightarrow> nat"
  UnsafeExpr_offset :: "UnsafeExpr \<Rightarrow> nat"
  Expr_offset :: "UnsafeExpr \<Rightarrow> nat"

definition UnsafeTerm_addr :: "layout \<Rightarrow> heap \<Rightarrow> UnsafeTerm \<Rightarrow> nat" where
  "UnsafeTerm_addr L h t =
     (case t of
        None \<Rightarrow> 0
      | Some p \<Rightarrow> object_address L p + UnsafeExpr_offset L (h ! p))"

definition Term_addr :: "layout \<Rightarrow> heap \<Rightarrow> UnsafeTerm \<Rightarrow> nat" where
  "Term_addr L h t =
     (case t of
        None \<Rightarrow> 0
      | Some p \<Rightarrow> object_address L p + Expr_offset L (h ! p))"

definition term_expr_kind :: "heap \<Rightarrow> UnsafeTerm \<Rightarrow> failure + ExprKind" where
  "term_expr_kind h t =
     (case t of None \<Rightarrow> Inl Assertion_Abort | Some p \<Rightarrow> Inr (m_expr_kind (h ! p)))"

definition term_sort :: "heap \<Rightarrow> UnsafeTerm \<Rightarrow> failure + sort_ptr" where
  "term_sort h t =
     (case t of None \<Rightarrow> Inl Assertion_Abort | Some p \<Rightarrow> Inr (m_sort (h ! p)))"

text \<open>
  \<^verbatim>\<open>UnsafeTerm::operator T()\<close>: \<^verbatim>\<open>T(std::dynamic_pointer_cast<const Expr<T>>(m_ptr))\<close>.
  The dynamic cast of a null pointer, or of a pointer to an object that has no
  \<^verbatim>\<open>Expr<T>\<close> base, is the null pointer.
\<close>

definition cast_to :: "smt_type \<Rightarrow> heap \<Rightarrow> UnsafeTerm \<Rightarrow> UnsafeTerm" where
  "cast_to T h u =
     (case u of
        None \<Rightarrow> None
      | Some p \<Rightarrow> if expr_type (h ! p) = Some T then Some p else None)"

text \<open>
  What the heap of a running program satisfies: a handle points into the heap, a typed
  handle \<^verbatim>\<open>Term<T>\<close> (null or not) points to an \<^verbatim>\<open>Expr<T>\<close>, and the operands of a
  node were built before it.
\<close>

definition valid_term :: "heap \<Rightarrow> UnsafeTerm \<Rightarrow> bool" where
  "valid_term h t = (case t of None \<Rightarrow> True | Some p \<Rightarrow> p < length h)"

definition typed_term :: "heap \<Rightarrow> smt_type \<Rightarrow> UnsafeTerm \<Rightarrow> bool" where
  "typed_term h T t =
     (case t of None \<Rightarrow> True | Some p \<Rightarrow> p < length h \<and> expr_type (h ! p) = Some T)"

subsection \<open>Node constructors\<close>

text \<open>
  \<^verbatim>\<open>UnsafeExpr\<close> is a virtual base class, so the constructor of the most derived class
  initialises it, and the initialiser a base class names for it is not evaluated. The
  typed classes pass \<^verbatim>\<open>internal::sort<U>()\<close>; an \<^verbatim>\<open>Unsafe...Expr\<close> class constructed
  on its own passes the sort its constructor computes. Each typed constructor below
  runs the body of its \<^verbatim>\<open>Unsafe...Expr\<close> base (the assertions) and adds the
  \<^verbatim>\<open>Expr<U>\<close> base.
\<close>

definition as_Expr :: "smt_type \<Rightarrow> failure + UnsafeExpr \<Rightarrow> failure + UnsafeExpr" where
  "as_Expr U r =
     (case r of
        Inl e \<Rightarrow> Inl e
      | Inr n \<Rightarrow> Inr (n\<lparr> m_sort := Static_Sort U, expr_type := Some U \<rparr>))"

text \<open>
  The literal is passed by value as a \<open>T\<close>, so the argument is converted to \<open>T\<close> at
  the call: to \<^verbatim>\<open>bool\<close> by comparison with zero, to another integral type modulo
  \<open>2\<close> to the power of its width.
\<close>

definition to_ctype :: "ctype \<Rightarrow> int \<Rightarrow> int" where
  "to_ctype T x =
     (if T = c_bool then (if x = 0 then 0 else 1)
      else if is_signed_c T then
        (x + 2 ^ (8 * sizeof T - 1)) mod 2 ^ (8 * sizeof T) - 2 ^ (8 * sizeof T - 1)
      else x mod 2 ^ (8 * sizeof T))"

definition UnsafeLiteralExpr :: "sort_ptr \<Rightarrow> ctype \<Rightarrow> int \<Rightarrow> failure + UnsafeExpr" where
  "UnsafeLiteralExpr srt T literal =
     Inr \<lparr> m_expr_kind = LITERAL_EXPR_KIND, m_sort = srt, expr_type = None,
           m_members = Literal_members T (to_ctype T literal) \<rparr>"

definition LiteralExpr :: "smt_type \<Rightarrow> ctype \<Rightarrow> int \<Rightarrow> failure + UnsafeExpr" where
  "LiteralExpr T U literal = as_Expr T (UnsafeLiteralExpr (Static_Sort T) U literal)"

definition UnsafeConstantExpr :: "UnsafeDecl \<Rightarrow> failure + UnsafeExpr" where
  "UnsafeConstantExpr decl =
     Inr \<lparr> m_expr_kind = CONSTANT_EXPR_KIND, m_sort = m_decl_sort decl, expr_type = None,
           m_members = Constant_members decl \<rparr>"

definition ConstantExpr :: "smt_type \<Rightarrow> UnsafeDecl \<Rightarrow> failure + UnsafeExpr" where
  "ConstantExpr T decl = as_Expr T (UnsafeConstantExpr decl)"

text \<open>
  \<^verbatim>\<open>UnsafeFuncAppExpr<arity>\<close> on its own computes its sort as
  \<^verbatim>\<open>func_decl.sort().sorts(arity)\<close>. It has no assertion on its arguments.
\<close>

definition UnsafeFuncAppExpr ::
  "nat \<Rightarrow> sort_memory \<Rightarrow> UnsafeDecl \<Rightarrow> UnsafeTerms \<Rightarrow> failure + UnsafeExpr" where
  "UnsafeFuncAppExpr arity mem func_decl args =
     (case sorts mem (deref_sort mem (m_decl_sort func_decl)) arity of
        Inl e \<Rightarrow> Inl e
      | Inr range_sort \<Rightarrow>
          Inr \<lparr> m_expr_kind = FUNC_APP_EXPR_KIND, m_sort = range_sort, expr_type = None,
                m_members = FuncApp_members func_decl args \<rparr>)"

text \<open>
  \<^verbatim>\<open>FuncAppExpr<T...>\<close>: \<^verbatim>\<open>Func<T...>::Range\<close> is the last type of the pack.
\<close>

definition FuncAppExpr :: "smt_type list \<Rightarrow> UnsafeDecl \<Rightarrow> UnsafeTerms \<Rightarrow> failure + UnsafeExpr" where
  "FuncAppExpr Ts func_decl args =
     Inr \<lparr> m_expr_kind = FUNC_APP_EXPR_KIND, m_sort = Static_Sort (last Ts),
           expr_type = Some (last Ts), m_members = FuncApp_members func_decl args \<rparr>"

definition UnsafeUnaryExpr :: "sort_ptr \<Rightarrow> Opcode \<Rightarrow> UnsafeTerm \<Rightarrow> failure + UnsafeExpr" where
  "UnsafeUnaryExpr srt opcode operand =
     (if is_null operand then Inl Assertion_Abort
      else Inr \<lparr> m_expr_kind = UNARY_EXPR_KIND, m_sort = srt, expr_type = None,
                 m_members = Unary_members opcode operand \<rparr>)"

definition UnaryExpr :: "Opcode \<Rightarrow> smt_type \<Rightarrow> smt_type \<Rightarrow> UnsafeTerm \<Rightarrow> failure + UnsafeExpr" where
  "UnaryExpr opcode T U operand = as_Expr U (UnsafeUnaryExpr (Static_Sort U) opcode operand)"

definition UnsafeBinaryExpr ::
  "sort_ptr \<Rightarrow> Opcode \<Rightarrow> UnsafeTerm \<Rightarrow> UnsafeTerm \<Rightarrow> failure + UnsafeExpr" where
  "UnsafeBinaryExpr srt opcode loperand roperand =
     (if is_null loperand then Inl Assertion_Abort
      else if is_null roperand then Inl Assertion_Abort
      else Inr \<lparr> m_expr_kind = BINARY_EXPR_KIND, m_sort = srt, expr_type = None,
                 m_members = Binary_members opcode loperand roperand \<rparr>)"

definition BinaryExpr ::
  "Opcode \<Rightarrow> smt_type \<Rightarrow> smt_type \<Rightarrow> UnsafeTerm \<Rightarrow> UnsafeTerm \<Rightarrow> failure + UnsafeExpr" where
  "BinaryExpr opcode T U loperand roperand =
     as_Expr U (UnsafeBinaryExpr (Static_Sort U) opcode loperand roperand)"

text \<open>The only assertion of \<^verbatim>\<open>UnsafeNaryExpr\<close> is \<^verbatim>\<open>!m_operands.empty()\<close>.\<close>

definition UnsafeNaryExpr :: "sort_ptr \<Rightarrow> Opcode \<Rightarrow> UnsafeTerms \<Rightarrow> failure + UnsafeExpr" where
  "UnsafeNaryExpr srt opcode operands =
     (if operands = [] then Inl Assertion_Abort
      else Inr \<lparr> m_expr_kind = NARY_EXPR_KIND, m_sort = srt, expr_type = None,
                 m_members = Nary_members opcode operands \<rparr>)"

definition NaryExpr :: "Opcode \<Rightarrow> smt_type \<Rightarrow> smt_type \<Rightarrow> UnsafeTerms \<Rightarrow> failure + UnsafeExpr" where
  "NaryExpr opcode T U operands = as_Expr U (UnsafeNaryExpr (Static_Sort U) opcode operands)"

definition UnsafeConstArrayExpr :: "sort_ptr \<Rightarrow> UnsafeTerm \<Rightarrow> failure + UnsafeExpr" where
  "UnsafeConstArrayExpr srt init =
     (if is_null init then Inl Assertion_Abort
      else Inr \<lparr> m_expr_kind = CONST_ARRAY_EXPR_KIND, m_sort = srt, expr_type = None,
                 m_members = ConstArray_members init \<rparr>)"

definition ConstArrayExpr :: "smt_type \<Rightarrow> smt_type \<Rightarrow> UnsafeTerm \<Rightarrow> failure + UnsafeExpr" where
  "ConstArrayExpr D R init =
     as_Expr (Array D R) (UnsafeConstArrayExpr (Static_Sort (Array D R)) init)"

text \<open>
  The body of \<^verbatim>\<open>UnsafeArraySelectExpr\<close>, given the sort the virtual base was
  initialised with, and the class constructed on its own: there the base initialiser
  \<^verbatim>\<open>UnsafeExpr(ARRAY_SELECT_EXPR_KIND, array.sort().sorts(1))\<close> runs first, with the
  assertion of \<^verbatim>\<open>UnsafeTerm::sort()\<close> and the index check of \<^verbatim>\<open>Sort::sorts\<close>.
\<close>

definition UnsafeArraySelectExpr_body ::
  "sort_ptr \<Rightarrow> UnsafeTerm \<Rightarrow> UnsafeTerm \<Rightarrow> failure + UnsafeExpr" where
  "UnsafeArraySelectExpr_body srt array index =
     (if is_null array then Inl Assertion_Abort
      else if is_null index then Inl Assertion_Abort
      else Inr \<lparr> m_expr_kind = ARRAY_SELECT_EXPR_KIND, m_sort = srt, expr_type = None,
                 m_members = ArraySelect_members array index \<rparr>)"

definition UnsafeArraySelectExpr ::
  "sort_memory \<Rightarrow> heap \<Rightarrow> UnsafeTerm \<Rightarrow> UnsafeTerm \<Rightarrow> failure + UnsafeExpr" where
  "UnsafeArraySelectExpr mem h array index =
     (case term_sort h array of
        Inl e \<Rightarrow> Inl e
      | Inr array_sort \<Rightarrow>
          (case sorts mem (deref_sort mem array_sort) 1 of
             Inl e \<Rightarrow> Inl e
           | Inr range_sort \<Rightarrow> UnsafeArraySelectExpr_body range_sort array index))"

definition ArraySelectExpr ::
  "smt_type \<Rightarrow> smt_type \<Rightarrow> UnsafeTerm \<Rightarrow> UnsafeTerm \<Rightarrow> failure + UnsafeExpr" where
  "ArraySelectExpr D R array index =
     as_Expr R (UnsafeArraySelectExpr_body (Static_Sort R) array index)"

definition UnsafeArrayStoreExpr_body ::
  "sort_ptr \<Rightarrow> UnsafeTerm \<Rightarrow> UnsafeTerm \<Rightarrow> UnsafeTerm \<Rightarrow> failure + UnsafeExpr" where
  "UnsafeArrayStoreExpr_body srt array index val =
     (if is_null array then Inl Assertion_Abort
      else if is_null index then Inl Assertion_Abort
      else if is_null val then Inl Assertion_Abort
      else Inr \<lparr> m_expr_kind = ARRAY_STORE_EXPR_KIND, m_sort = srt, expr_type = None,
                 m_members = ArrayStore_members array index val \<rparr>)"

definition UnsafeArrayStoreExpr ::
  "heap \<Rightarrow> UnsafeTerm \<Rightarrow> UnsafeTerm \<Rightarrow> UnsafeTerm \<Rightarrow> failure + UnsafeExpr" where
  "UnsafeArrayStoreExpr h array index val =
     (case term_sort h array of
        Inl e \<Rightarrow> Inl e
      | Inr array_sort \<Rightarrow> UnsafeArrayStoreExpr_body array_sort array index val)"

definition ArrayStoreExpr ::
  "smt_type \<Rightarrow> smt_type \<Rightarrow> UnsafeTerm \<Rightarrow> UnsafeTerm \<Rightarrow> UnsafeTerm \<Rightarrow> failure + UnsafeExpr" where
  "ArrayStoreExpr D R array index val =
     as_Expr (Array D R)
       (UnsafeArrayStoreExpr_body (Static_Sort (Array D R)) array index val)"

text \<open>The operand handles a node holds.\<close>

fun operands_of :: "members \<Rightarrow> UnsafeTerms" where
  "operands_of (Literal_members T literal) = []"
| "operands_of (Constant_members decl) = []"
| "operands_of (FuncApp_members func_decl args) = args"
| "operands_of (Unary_members opcode operand) = [operand]"
| "operands_of (Binary_members opcode loperand roperand) = [loperand, roperand]"
| "operands_of (Nary_members opcode operands) = operands"
| "operands_of (ConstArray_members init) = [init]"
| "operands_of (ArraySelect_members array index) = [array, index]"
| "operands_of (ArrayStore_members array index val) = [array, index, val]"

text \<open>
  Every class derived from \<^verbatim>\<open>Expr<T>\<close> initialises the virtual base with
  \<^verbatim>\<open>internal::sort<T>()\<close>; this is the property of the heap that follows from it.
\<close>

definition sorted_by_type :: "UnsafeExpr \<Rightarrow> bool" where
  "sorted_by_type n = (case expr_type n of None \<Rightarrow> True | Some T \<Rightarrow> m_sort n = Static_Sort T)"

definition wf_heap :: "heap \<Rightarrow> bool" where
  "wf_heap h = list_all sorted_by_type h"

section \<open>Builders\<close>

text \<open>
  A builder constructs a node with \<^verbatim>\<open>new\<close> and returns the handle; when the
  constructor fails nothing is added to the heap.
\<close>

definition build :: "heap \<Rightarrow> failure + UnsafeExpr \<Rightarrow> failure + UnsafeTerm \<times> heap" where
  "build h r = (case r of Inl e \<Rightarrow> Inl e | Inr n \<Rightarrow> Inr (new h n))"

definition unsafe_literal :: "sort_ptr \<Rightarrow> ctype \<Rightarrow> int \<Rightarrow> heap \<Rightarrow> failure + UnsafeTerm \<times> heap" where
  "unsafe_literal srt T literal h = build h (UnsafeLiteralExpr srt T literal)"

definition literal :: "smt_type \<Rightarrow> ctype \<Rightarrow> int \<Rightarrow> heap \<Rightarrow> failure + UnsafeTerm \<times> heap" where
  "literal T U v h = build h (LiteralExpr T U v)"

definition constant_term :: "smt_type \<Rightarrow> UnsafeDecl \<Rightarrow> heap \<Rightarrow> failure + UnsafeTerm \<times> heap" where
  "constant_term T decl h = build h (ConstantExpr T decl)"

text \<open>The n-ary \<^verbatim>\<open>apply\<close>, which the unary and the binary one call.\<close>

definition apply_func ::
  "smt_type list \<Rightarrow> heap \<Rightarrow> UnsafeDecl \<Rightarrow> UnsafeTerms \<Rightarrow> failure + UnsafeTerm \<times> heap" where
  "apply_func Ts h func_decl args = build h (FuncAppExpr Ts func_decl args)"

text \<open>\<^verbatim>\<open>distinct(Terms<T>&&)\<close>; \<^verbatim>\<open>Terms<T>\<close> wraps a vector of handles.\<close>

definition distinct_terms :: "smt_type \<Rightarrow> heap \<Rightarrow> UnsafeTerms \<Rightarrow> failure + UnsafeTerm \<times> heap" where
  "distinct_terms T h terms = build h (NaryExpr NEQ T Bool_t terms)"

definition select ::
  "smt_type \<Rightarrow> smt_type \<Rightarrow> heap \<Rightarrow> UnsafeTerm \<Rightarrow> UnsafeTerm \<Rightarrow> failure + UnsafeTerm \<times> heap" where
  "select D R h array index = build h (ArraySelectExpr D R array index)"

definition store ::
  "smt_type \<Rightarrow> smt_type \<Rightarrow> heap \<Rightarrow> UnsafeTerm \<Rightarrow> UnsafeTerm \<Rightarrow> UnsafeTerm \<Rightarrow>
     failure + UnsafeTerm \<times> heap" where
  "store D R h array index val = build h (ArrayStoreExpr D R array index val)"

subsection \<open>Overloaded operators\<close>

text \<open>The bodies of the operator macros on two terms, by opcode.\<close>

definition SMT_BUILTIN_BINARY_OP ::
  "Opcode \<Rightarrow> smt_type \<Rightarrow> heap \<Rightarrow> UnsafeTerm \<Rightarrow> UnsafeTerm \<Rightarrow> failure + UnsafeTerm \<times> heap" where
  "SMT_BUILTIN_BINARY_OP opcode T h larg rarg = build h (BinaryExpr opcode T T larg rarg)"

definition SMT_BUILTIN_BINARY_REL ::
  "Opcode \<Rightarrow> smt_type \<Rightarrow> heap \<Rightarrow> UnsafeTerm \<Rightarrow> UnsafeTerm \<Rightarrow> failure + UnsafeTerm \<times> heap" where
  "SMT_BUILTIN_BINARY_REL opcode T h larg rarg = build h (BinaryExpr opcode T Bool_t larg rarg)"

definition SMT_BUILTIN_BV_BINARY_OP ::
  "Opcode \<Rightarrow> ctype \<Rightarrow> heap \<Rightarrow> UnsafeTerm \<Rightarrow> UnsafeTerm \<Rightarrow> failure + UnsafeTerm \<times> heap" where
  "SMT_BUILTIN_BV_BINARY_OP opcode T h larg rarg =
     build h (BinaryExpr opcode (Bv T) (Bv T) larg rarg)"

definition SMT_BUILTIN_BOOL_BINARY_OP ::
  "Opcode \<Rightarrow> heap \<Rightarrow> UnsafeTerm \<Rightarrow> UnsafeTerm \<Rightarrow> failure + UnsafeTerm \<times> heap" where
  "SMT_BUILTIN_BOOL_BINARY_OP opcode h larg rarg =
     build h (BinaryExpr opcode Bool_t Bool_t larg rarg)"

definition SMT_BUILTIN_BOOL_UNARY_OP ::
  "Opcode \<Rightarrow> heap \<Rightarrow> UnsafeTerm \<Rightarrow> failure + UnsafeTerm \<times> heap" where
  "SMT_BUILTIN_BOOL_UNARY_OP opcode h arg = build h (UnaryExpr opcode Bool_t Bool_t arg)"

definition SMT_UNSAFE_BINARY_OP ::
  "Opcode \<Rightarrow> heap \<Rightarrow> UnsafeTerm \<Rightarrow> UnsafeTerm \<Rightarrow> failure + UnsafeTerm \<times> heap" where
  "SMT_UNSAFE_BINARY_OP opcode h larg rarg =
     (case term_sort h larg of
        Inl e \<Rightarrow> Inl e
      | Inr larg_sort \<Rightarrow> build h (UnsafeBinaryExpr larg_sort opcode larg rarg))"

definition SMT_UNSAFE_BINARY_REL ::
  "Opcode \<Rightarrow> heap \<Rightarrow> UnsafeTerm \<Rightarrow> UnsafeTerm \<Rightarrow> failure + UnsafeTerm \<times> heap" where
  "SMT_UNSAFE_BINARY_REL opcode h larg rarg =
     build h (UnsafeBinaryExpr (Static_Sort Bool_t) opcode larg rarg)"

text \<open>
  The binary operators on two typed terms of type \<open>T\<close>, named by the opcode their macro
  instantiation carries: \<^verbatim>\<open>- + * / %\<close> and \<^verbatim>\<open>< > != <= >= ==\<close> for every term type,
  \<^verbatim>\<open>& | ^\<close> for bit vectors, \<^verbatim>\<open>&& ||\<close> for \<^verbatim>\<open>Bool\<close>. On two \<^verbatim>\<open>Bool\<close> terms
  \<^verbatim>\<open>==\<close> and \<^verbatim>\<open>!=\<close> resolve to the non-template overloads. On terms of another
  type \<^verbatim>\<open>& | ^\<close> and \<^verbatim>\<open>&& ||\<close> resolve to the overloads on \<^verbatim>\<open>UnsafeTerm\<close>,
  through the implicit conversion \<^verbatim>\<open>Term<T>::operator UnsafeTerm()\<close>, which keeps the
  pointer. \<open>None\<close> stands for an opcode no binary operator carries.
\<close>

definition typed_operator ::
  "Opcode \<Rightarrow> smt_type \<Rightarrow> heap \<Rightarrow> UnsafeTerm \<Rightarrow> UnsafeTerm \<Rightarrow>
     (failure + UnsafeTerm \<times> heap) option" where
  "typed_operator opcode T h larg rarg =
     (if opcode \<in> {SUB, ADD, MUL, QUO, REM} then
        Some (SMT_BUILTIN_BINARY_OP opcode T h larg rarg)
      else if opcode \<in> {EQL, NEQ} \<and> T = Bool_t then
        Some (SMT_BUILTIN_BOOL_BINARY_OP opcode h larg rarg)
      else if opcode \<in> {LSS, GTR, NEQ, LEQ, GEQ, EQL} then
        Some (SMT_BUILTIN_BINARY_REL opcode T h larg rarg)
      else if opcode \<in> {AND, OR, XOR} then
        (case T of
           Bv U \<Rightarrow> Some (SMT_BUILTIN_BV_BINARY_OP opcode U h larg rarg)
         | _ \<Rightarrow> Some (SMT_UNSAFE_BINARY_OP opcode h larg rarg))
      else if opcode \<in> {LAND, LOR} then
        (if T = Bool_t then Some (SMT_BUILTIN_BOOL_BINARY_OP opcode h larg rarg)
         else Some (SMT_UNSAFE_BINARY_OP opcode h larg rarg))
      else None)"

text \<open>The binary operators on two \<^verbatim>\<open>UnsafeTerm\<close>s.\<close>

definition unsafe_operator ::
  "Opcode \<Rightarrow> heap \<Rightarrow> UnsafeTerm \<Rightarrow> UnsafeTerm \<Rightarrow> (failure + UnsafeTerm \<times> heap) option" where
  "unsafe_operator opcode h larg rarg =
     (if opcode \<in> {LAND, LOR, SUB, ADD, MUL, QUO, REM, AND, OR, XOR} then
        Some (SMT_UNSAFE_BINARY_OP opcode h larg rarg)
      else if opcode \<in> {LSS, GTR, NEQ, LEQ, GEQ, EQL} then
        Some (SMT_UNSAFE_BINARY_REL opcode h larg rarg)
      else None)"

section \<open>Example data\<close>

text \<open>
  A heap holding the terms \<^verbatim>\<open>constant(Decl<Array<Int, Int>>("array"))\<close>,
  \<^verbatim>\<open>constant(Decl<Int>("i"))\<close>, \<^verbatim>\<open>literal<Int>(7)\<close> and the unsafe
  \<^verbatim>\<open>constant(UnsafeDecl("f", internal::sort<Func<Int, Int>>()))\<close>.
\<close>

definition example_heap :: heap where
  "example_heap =
     [ \<lparr> m_expr_kind = CONSTANT_EXPR_KIND, m_sort = Static_Sort (Array Int_t Int_t),
         expr_type = Some (Array Int_t Int_t),
         m_members = Constant_members (Decl (Array Int_t Int_t) ''array'') \<rparr>,
       \<lparr> m_expr_kind = CONSTANT_EXPR_KIND, m_sort = Static_Sort Int_t,
         expr_type = Some Int_t, m_members = Constant_members (Decl Int_t ''i'') \<rparr>,
       \<lparr> m_expr_kind = LITERAL_EXPR_KIND, m_sort = Static_Sort Int_t,
         expr_type = Some Int_t, m_members = Literal_members c_int 7 \<rparr>,
       \<lparr> m_expr_kind = CONSTANT_EXPR_KIND, m_sort = Static_Sort (Func [Int_t, Int_t]),
         expr_type = None,
         m_members = Constant_members (Decl (Func [Int_t, Int_t]) ''f'') \<rparr> ]"

text \<open>\<^verbatim>\<open>internal::IsPrimitive<T>\<close>.\<close>

fun IsPrimitive :: "smt_type \<Rightarrow> bool" where
  "IsPrimitive (Bv T) = is_integral_c T"
| "IsPrimitive Bool_t = True"
| "IsPrimitive Int_t = True"
| "IsPrimitive Real_t = True"
| "IsPrimitive _ = False"

text \<open>
  A constructor call checks its operands: it aborts when one of them is null, and
  otherwise returns a node holding exactly these operands.
\<close>

definition checks_operands :: "UnsafeTerms \<Rightarrow> failure + UnsafeExpr \<Rightarrow> bool" where
  "checks_operands ops r =
     (case r of
        Inl e \<Rightarrow> e = Assertion_Abort \<and> list_ex is_null ops
      | Inr n \<Rightarrow> \<not> list_ex is_null ops \<and> operands_of (m_members n) = ops)"

text \<open>
  The layout of the node objects under the Itanium C++ ABI on x86-64 with libstdc++,
  where a pointer, a reference and a virtual table pointer take 8 bytes, an
  \<^verbatim>\<open>UnsafeTerm\<close> (a \<^verbatim>\<open>std::shared_ptr\<close>) 16, a \<^verbatim>\<open>Term<T>\<close> (virtual table pointer
  and \<^verbatim>\<open>std::shared_ptr\<close>) 24, a \<^verbatim>\<open>std::vector\<close> 24, a \<^verbatim>\<open>std::string\<close> 32 and an
  \<^verbatim>\<open>UnsafeDecl\<close> (virtual table pointer, string, reference) 48. An object begins with
  its \<^verbatim>\<open>Unsafe...Expr\<close> part: the virtual table pointer and the members, aligned to 8.
  In a typed node the \<^verbatim>\<open>Expr<T>\<close> part (a virtual table pointer) follows, then the
  members of the typed class. The virtual base \<^verbatim>\<open>UnsafeExpr\<close> comes last. The objects
  are taken to lie 4096 bytes apart.
\<close>

fun Unsafe_part_size :: "members \<Rightarrow> nat" where
  "Unsafe_part_size (Literal_members T lit) = 16"
| "Unsafe_part_size (Constant_members decl) = 56"
| "Unsafe_part_size (FuncApp_members func_decl args) = 56 + 16 * length args"
| "Unsafe_part_size (Unary_members opcode operand) = 32"
| "Unsafe_part_size (Binary_members opcode loperand roperand) = 48"
| "Unsafe_part_size (Nary_members opcode operands) = 40"
| "Unsafe_part_size (ConstArray_members init) = 24"
| "Unsafe_part_size (ArraySelect_members array index) = 40"
| "Unsafe_part_size (ArrayStore_members array index val) = 56"

fun typed_members_size :: "members \<Rightarrow> nat" where
  "typed_members_size (Literal_members T lit) = 0"
| "typed_members_size (Constant_members decl) = 48"
| "typed_members_size (FuncApp_members func_decl args) = 48 + 24 * length args"
| "typed_members_size (Unary_members opcode operand) = 24"
| "typed_members_size (Binary_members opcode loperand roperand) = 48"
| "typed_members_size (Nary_members opcode operands) = 0"
| "typed_members_size (ConstArray_members init) = 24"
| "typed_members_size (ArraySelect_members array index) = 48"
| "typed_members_size (ArrayStore_members array index val) = 72"

definition x86_64_layout :: layout where
  "x86_64_layout =
     \<lparr> object_address = (\<lambda>p. 4096 * Suc p),
       UnsafeExpr_offset =
         (\<lambda>n. case expr_type n of
                None \<Rightarrow> Unsafe_part_size (m_members n)
              | Some T \<Rightarrow> Unsafe_part_size (m_members n) + 8 + typed_members_size (m_members n)),
       Expr_offset = (\<lambda>n. Unsafe_part_size (m_members n)) \<rparr>"

section \<open>The meaning of terms\<close>

text \<open>
  Modelled from the spec: the solver backend behind the \<^verbatim>\<open>Solver\<close> interface (the Z3
  encoder and the solver itself are not part of these sources). A model gives one
  function per \<^verbatim>\<open>encode_...\<close> hook, from the fields the node passes to the hook and the
  values of its operands to the value of the node, and says which values are the
  truth values.
\<close>

record 'v model =
  literal_value :: "sort_ptr \<Rightarrow> ctype \<Rightarrow> int \<Rightarrow> 'v"
  constant_value :: "UnsafeDecl \<Rightarrow> 'v"
  func_app_value :: "UnsafeDecl \<Rightarrow> 'v list \<Rightarrow> 'v"
  const_array_value :: "sort_ptr \<Rightarrow> 'v \<Rightarrow> 'v"
  array_select_value :: "'v \<Rightarrow> 'v \<Rightarrow> 'v"
  array_store_value :: "'v \<Rightarrow> 'v \<Rightarrow> 'v \<Rightarrow> 'v"
  unary_value :: "Opcode \<Rightarrow> sort_ptr \<Rightarrow> 'v \<Rightarrow> 'v"
  binary_value :: "Opcode \<Rightarrow> sort_ptr \<Rightarrow> 'v \<Rightarrow> 'v \<Rightarrow> 'v"
  nary_value :: "Opcode \<Rightarrow> sort_ptr \<Rightarrow> 'v list \<Rightarrow> 'v"
  bool_value :: "bool \<Rightarrow> 'v"

text \<open>
  Modelled from the spec: the standard SMT semantics, as far as the select/store law
  needs it. Reading an array at the index just written gives the value written
  (McCarthy's axiom), \<^verbatim>\<open>EQL\<close> is equality, \<^verbatim>\<open>LNOT\<close> is negation, and the two truth
  values differ.
\<close>

definition standard_model :: "'v model \<Rightarrow> bool" where
  "standard_model M \<longleftrightarrow>
     (\<forall>a i v. array_select_value M (array_store_value M a i v) i = v) \<and>
     (\<forall>s x y. binary_value M EQL s x y = bool_value M (x = y)) \<and>
     (\<forall>s b. unary_value M LNOT s (bool_value M b) = bool_value M (\<not> b)) \<and>
     bool_value M True \<noteq> bool_value M False"

text \<open>
  Modelled from the spec: the backend evaluates the operand handles a hook receives
  (the encoder that does so is not part of these sources). The value of an operand,
  given the values of the nodes built so far; a null handle and a handle to a node not
  yet built have none.
\<close>

definition operand_value :: "'v option list \<Rightarrow> UnsafeTerm \<Rightarrow> 'v option" where
  "operand_value vals t =
     (case t of
        None \<Rightarrow> None
      | Some p \<Rightarrow> if p < length vals then vals ! p else None)"

definition operand_values :: "'v option list \<Rightarrow> UnsafeTerms \<Rightarrow> 'v list option" where
  "operand_values vals ts =
     (if list_ex (\<lambda>t. operand_value vals t = None) ts then None
      else Some (map (\<lambda>t. the (operand_value vals t)) ts))"

text \<open>
  The \<^verbatim>\<open>__encode\<close> method of each node class calls the hook of its own kind with
  its own fields; what the hook returns for them is modelled from the spec, as the
  value the model gives to the values of the operands.
\<close>

definition node_value :: "'v model \<Rightarrow> 'v option list \<Rightarrow> UnsafeExpr \<Rightarrow> 'v option" where
  "node_value M vals n =
     (case m_members n of
        Literal_members T lit \<Rightarrow> Some (literal_value M (m_sort n) T lit)
      | Constant_members decl \<Rightarrow> Some (constant_value M decl)
      | FuncApp_members func_decl args \<Rightarrow>
          map_option (func_app_value M func_decl) (operand_values vals args)
      | Unary_members opcode operand \<Rightarrow>
          map_option (unary_value M opcode (m_sort n)) (operand_value vals operand)
      | Binary_members opcode loperand roperand \<Rightarrow>
          (case (operand_value vals loperand, operand_value vals roperand) of
             (Some x, Some y) \<Rightarrow> Some (binary_value M opcode (m_sort n) x y)
           | _ \<Rightarrow> None)
      | Nary_members opcode operands \<Rightarrow>
          map_option (nary_value M opcode (m_sort n)) (operand_values vals operands)
      | ConstArray_members init \<Rightarrow>
          map_option (const_array_value M (m_sort n)) (operand_value vals init)
      | ArraySelect_members array index \<Rightarrow>
          (case (operand_value vals array, operand_value vals index) of
             (Some x, Some y) \<Rightarrow> Some (array_select_value M x y)
           | _ \<Rightarrow> None)
      | ArrayStore_members array index val \<Rightarrow>
          (case (operand_value vals array, operand_value vals index, operand_value vals val) of
             (Some x, Some y, Some z) \<Rightarrow> Some (array_store_value M x y z)
           | _ \<Rightarrow> None))"

text \<open>
  Modelled from the spec: the backend's traversal of a term, operands before the node.
  The values of all nodes of a heap, in the order the nodes were built.
\<close>

definition heap_values :: "'v model \<Rightarrow> heap \<Rightarrow> 'v option list" where
  "heap_values M h = foldl (\<lambda>vals n. vals @ [node_value M vals n]) [] h"

definition term_value :: "'v model \<Rightarrow> heap \<Rightarrow> UnsafeTerm \<Rightarrow> 'v option" where
  "term_value M h t = operand_value (heap_values M h) t"

text \<open>
  Modelled from the spec: a standard model to evaluate in, in place of the solver. An
  array is a default value and a list of writes, the latest first.
\<close>

datatype val = BoolV bool | IntV int | ArrayV "(val \<times> val) list" val

fun select_val :: "val \<Rightarrow> val \<Rightarrow> val" where
  "select_val (ArrayV writes dflt) i =
     (case map_of writes i of Some v \<Rightarrow> v | None \<Rightarrow> dflt)"
| "select_val x i = x"

fun store_val :: "val \<Rightarrow> val \<Rightarrow> val \<Rightarrow> val" where
  "store_val (ArrayV writes dflt) i v = ArrayV ((i, v) # writes) dflt"
| "store_val x i v = ArrayV [(i, v)] x"

fun not_val :: "val \<Rightarrow> val" where
  "not_val (BoolV b) = BoolV (\<not> b)"
| "not_val x = x"

definition example_model :: "val model" where
  "example_model =
     \<lparr> literal_value = (\<lambda>s T lit. IntV lit),
       constant_value = (\<lambda>decl. if m_symbol decl = ''array'' then ArrayV [] (IntV 0) else IntV 3),
       func_app_value = (\<lambda>decl args. IntV 0),
       const_array_value = (\<lambda>s init. ArrayV [] init),
       array_select_value = select_val,
       array_store_value = store_val,
       unary_value = (\<lambda>opcode s x. if opcode = LNOT then not_val x else x),
       binary_value = (\<lambda>opcode s x y. if opcode = EQL then BoolV (x = y) else x),
       nary_value = (\<lambda>opcode s xs. BoolV (distinct xs)),
       bool_value = BoolV \<rparr>"

section \<open>Properties of sorts\<close>

lemma list_all2_same_object:
  "list_all2 (structurally_equal mem) xs xs"
  by (simp add: list_all2_same structurally_equal.same_object)

lemma Sort_eq_sound:
  "Sort_eq mem s1 s2 \<Longrightarrow> structurally_equal mem s1 s2"
proof (cases "s1 = s2")
  case True
  then show ?thesis by (simp add: structurally_equal.same_object)
next
  case False
  assume "Sort_eq mem s1 s2"
  with False have
    cls: "same_classification (deref_sort mem s1) (deref_sort mem s2)" and
    ptr: "m_sorts (deref_sort mem s1) = m_sorts (deref_sort mem s2)" and
    len: "m_sorts_size (deref_sort mem s1) = m_sorts_size (deref_sort mem s2)"
    by (simp_all add: Sort_eq_def same_classification_def)
  show ?thesis
    by (rule structurally_equal.same_structure [OF cls len])
       (simp add: ptr len list_all2_same_object)
qed

text \<open>
  C8. \<^verbatim>\<open>s.sorts(i)\<close> fails, with \<^verbatim>\<open>std::out_of_range\<close>, exactly when
  \<open>i \<ge> s.sorts_size()\<close>; otherwise it returns the reference stored at position \<open>i\<close> of
  the array of nested sorts.
\<close>

theorem sorts_out_of_range_iff:
  "(sorts mem s i = Inl Out_Of_Range \<longleftrightarrow> i \<ge> sorts_size s) \<and>
   (sorts mem s i = Inr (deref_sorts mem (m_sorts s) ! i) \<longleftrightarrow> i < sorts_size s) \<and>
   sorts mem s i \<noteq> Inl Assertion_Abort"
  by (simp add: sorts_def check_sorts_index_def sorts_size_def)

text \<open>
  C1, as stated, fails: two array sorts built over separately allocated arrays that hold
  the same two nested sorts agree on every classification field and are structurally
  equal, yet \<^verbatim>\<open>operator==\<close> returns false, because it compares the addresses of
  the two arrays.
\<close>

theorem Sort_eq_separate_arrays_counterexample:
  "same_classification (deref_sort two_arrays (Heap_Sort 0)) (deref_sort two_arrays (Heap_Sort 1)) \<and>
   deref_sorts two_arrays (m_sorts (deref_sort two_arrays (Heap_Sort 0))) =
     deref_sorts two_arrays (m_sorts (deref_sort two_arrays (Heap_Sort 1))) \<and>
   structurally_equal two_arrays (Heap_Sort 0) (Heap_Sort 1) \<and>
   \<not> Sort_eq two_arrays (Heap_Sort 0) (Heap_Sort 1)"
proof -
  have cls: "same_classification (deref_sort two_arrays (Heap_Sort 0)) (deref_sort two_arrays (Heap_Sort 1))"
    by (simp add: same_classification_def two_arrays_def Sort_composite_def)
  have len: "m_sorts_size (deref_sort two_arrays (Heap_Sort 0)) = m_sorts_size (deref_sort two_arrays (Heap_Sort 1))"
    by (simp add: two_arrays_def Sort_composite_def)
  have seq: "deref_sorts two_arrays (m_sorts (deref_sort two_arrays (Heap_Sort 0))) =
     deref_sorts two_arrays (m_sorts (deref_sort two_arrays (Heap_Sort 1)))"
    by (simp add: two_arrays_def Sort_composite_def)
  have str: "structurally_equal two_arrays (Heap_Sort 0) (Heap_Sort 1)"
    by (rule structurally_equal.same_structure [OF cls len])
       (simp add: two_arrays_def Sort_composite_def structurally_equal.same_object)
  have neq: "\<not> Sort_eq two_arrays (Heap_Sort 0) (Heap_Sort 1)"
    by (simp add: Sort_eq_def two_arrays_def Sort_composite_def)
  from cls seq str neq show ?thesis by blast
qed

text \<open>
  C1, amended. \<^verbatim>\<open>s1 == s2\<close> is true when both are the same object; for two
  different objects it is true exactly when they agree on all classification fields,
  point to the same array of nested sorts and have the same number of nested sorts.
  Whenever it is true the two sorts are structurally equal.
\<close>

theorem Sort_eq_shallow:
  "Sort_eq mem s s \<and>
   (s1 \<noteq> s2 \<longrightarrow>
      (Sort_eq mem s1 s2 \<longleftrightarrow>
         same_classification (deref_sort mem s1) (deref_sort mem s2) \<and>
         m_sorts (deref_sort mem s1) = m_sorts (deref_sort mem s2) \<and>
         sorts_size (deref_sort mem s1) = sorts_size (deref_sort mem s2))) \<and>
   (Sort_eq mem s1 s2 \<longrightarrow> structurally_equal mem s1 s2)"
proof -
  have a: "Sort_eq mem s s" by (simp add: Sort_eq_def)
  have b: "s1 \<noteq> s2 \<longrightarrow>
      (Sort_eq mem s1 s2 \<longleftrightarrow>
         same_classification (deref_sort mem s1) (deref_sort mem s2) \<and>
         m_sorts (deref_sort mem s1) = m_sorts (deref_sort mem s2) \<and>
         sorts_size (deref_sort mem s1) = sorts_size (deref_sort mem s2))"
    by (auto simp add: Sort_eq_def same_classification_def sorts_size_def)
  from a b Sort_eq_sound show ?thesis by blast
qed

theorem Sort_eq_shallow_witness:
  "Static_Sort (Bv c_long) \<noteq> Static_Sort (Bv c_long_long) \<and>
   Sort_eq two_arrays (Static_Sort (Bv c_long)) (Static_Sort (Bv c_long_long)) \<and>
   structurally_equal two_arrays (Static_Sort (Bv c_long)) (Static_Sort (Bv c_long_long))"
  using Sort_eq_shallow [of two_arrays "Static_Sort (Bv c_long)" "Static_Sort (Bv c_long)"
      "Static_Sort (Bv c_long_long)"]
  by (simp add: same_classification_def Sort_primitive_def sorts_size_def is_integral_c_def)

section \<open>Function sorts and application\<close>

lemma static_func_sort:
  "static_sort (Func (Ts @ [R])) =
     Sort_composite True False False (Static_Sorts (Func (Ts @ [R]))) (length Ts + 1)"
  by (cases Ts) simp_all

text \<open>
  C6. The registry sort of \<^verbatim>\<open>Func<T1,...,Tn,R>\<close> is a function sort with \<open>n + 1\<close>
  nested sorts: the sorts of the argument types at the indices below \<open>n\<close> and the sort
  of \<open>R\<close> at index \<open>n\<close>. The typed \<^verbatim>\<open>apply\<close> on a declaration of that type
  (which needs at least one argument type) and the unsafe function application node
  of arity \<open>n\<close> on a declaration of that sort both carry the sort of \<open>R\<close>.
\<close>

theorem func_sort_and_apply:
  "m_is_func (static_sort (Func (Ts @ [R]))) \<and>
   sorts_size (static_sort (Func (Ts @ [R]))) = length Ts + 1 \<and>
   (\<forall>i < length Ts. sorts mem (static_sort (Func (Ts @ [R]))) i = Inr (Static_Sort (Ts ! i))) \<and>
   sorts mem (static_sort (Func (Ts @ [R]))) (length Ts) = Inr (Static_Sort R) \<and>
   (Ts \<noteq> [] \<longrightarrow>
      (\<exists>t h'. apply_func (Ts @ [R]) h (Decl (Func (Ts @ [R])) symbol) args = Inr (t, h') \<and>
         \<not> is_null t \<and> term_sort h' t = Inr (Static_Sort R) \<and>
         term_expr_kind h' t = Inr FUNC_APP_EXPR_KIND)) \<and>
   (m_decl_sort func_decl = Static_Sort (Func (Ts @ [R])) \<longrightarrow>
      (\<exists>n. UnsafeFuncAppExpr (length Ts) mem func_decl args = Inr n \<and>
         m_sort n = Static_Sort R \<and> m_expr_kind n = FUNC_APP_EXPR_KIND))"
proof -
  let ?s = "static_sort (Func (Ts @ [R]))"
  have s: "?s = Sort_composite True False False (Static_Sorts (Func (Ts @ [R]))) (length Ts + 1)"
    by (rule static_func_sort)
  have 1: "m_is_func ?s" by (simp add: s Sort_composite_def)
  have 2: "sorts_size ?s = length Ts + 1" by (simp add: s Sort_composite_def sorts_size_def)
  have 3: "\<forall>i < length Ts. sorts mem ?s i = Inr (Static_Sort (Ts ! i))"
    by (simp add: s Sort_composite_def sorts_def check_sorts_index_def nth_append)
  have 4: "sorts mem ?s (length Ts) = Inr (Static_Sort R)"
    by (simp add: s Sort_composite_def sorts_def check_sorts_index_def nth_append)
  have 5: "\<exists>t h'. apply_func (Ts @ [R]) h (Decl (Func (Ts @ [R])) symbol) args = Inr (t, h') \<and>
         \<not> is_null t \<and> term_sort h' t = Inr (Static_Sort R) \<and>
         term_expr_kind h' t = Inr FUNC_APP_EXPR_KIND"
    by (simp add: apply_func_def FuncAppExpr_def build_def new_def is_null_def term_sort_def
        term_expr_kind_def)
  have 6: "m_decl_sort func_decl = Static_Sort (Func (Ts @ [R])) \<longrightarrow>
      (\<exists>n. UnsafeFuncAppExpr (length Ts) mem func_decl args = Inr n \<and>
         m_sort n = Static_Sort R \<and> m_expr_kind n = FUNC_APP_EXPR_KIND)"
    using 4 by (simp add: UnsafeFuncAppExpr_def)
  from 1 2 3 4 5 6 show ?thesis by blast
qed

theorem func_sort_and_apply_witness:
  "m_is_func (static_sort (Func [Bv c_long, Int_t, Bool_t])) \<and>
   sorts_size (static_sort (Func [Bv c_long, Int_t, Bool_t])) = 3 \<and>
   sorts two_arrays (static_sort (Func [Bv c_long, Int_t, Bool_t])) 0 = Inr (Static_Sort (Bv c_long)) \<and>
   sorts two_arrays (static_sort (Func [Bv c_long, Int_t, Bool_t])) 1 = Inr (Static_Sort Int_t) \<and>
   sorts two_arrays (static_sort (Func [Bv c_long, Int_t, Bool_t])) 2 = Inr (Static_Sort Bool_t) \<and>
   (\<exists>t h'. apply_func [Bv c_long, Int_t, Bool_t] example_heap
              (Decl (Func [Bv c_long, Int_t, Bool_t]) ''f'') [Some 2, Some 1] = Inr (t, h') \<and>
      term_sort h' t = Inr (Static_Sort Bool_t)) \<and>
   (\<exists>n. UnsafeFuncAppExpr 2 two_arrays (Decl (Func [Bv c_long, Int_t, Bool_t]) ''f'')
              [Some 2, Some 1] = Inr n \<and> m_sort n = Static_Sort Bool_t)"
  using func_sort_and_apply [of "[Bv c_long, Int_t]" Bool_t two_arrays example_heap "''f''"
      "[Some 2, Some 1]" "Decl (Func [Bv c_long, Int_t, Bool_t]) ''f''"]
  by (auto simp add: Decl_def All_less_Suc numeral_2_eq_2)

section \<open>Builders and casts\<close>

lemma build_Inr:
  "build h (Inr n) = Inr (Some (length h), h @ [n])"
  by (simp add: build_def new_def)

lemma build_Inl:
  "build h (Inl e) = Inl e"
  by (simp add: build_def)

lemma as_Expr_Inr:
  "as_Expr U (Inr n) = Inr (n\<lparr> m_sort := Static_Sort U, expr_type := Some U \<rparr>)"
  by (simp add: as_Expr_def)

lemma as_Expr_Inl:
  "as_Expr U (Inl e) = Inl e"
  by (simp add: as_Expr_def)

text \<open>
  C7, as stated, fails in its last part: the typed handle that the conversion returns
  refers to the same node as the untyped one, but the two \<^verbatim>\<open>addr()\<close> are the
  addresses of different subobjects of that node. For the node of
  \<^verbatim>\<open>constant(Decl<Int>("i"))\<close> on x86-64 they are 56 bytes apart.
\<close>

theorem cast_addr_counterexample:
  "\<not> is_null (Some 1) \<and>
   expr_type (example_heap ! 1) = Some Int_t \<and>
   cast_to Int_t example_heap (Some 1) = Some 1 \<and>
   UnsafeTerm_addr x86_64_layout example_heap (Some 1) = 8192 + 112 \<and>
   Term_addr x86_64_layout example_heap (cast_to Int_t example_heap (Some 1)) = 8192 + 56 \<and>
   Term_addr x86_64_layout example_heap (cast_to Int_t example_heap (Some 1)) \<noteq>
     UnsafeTerm_addr x86_64_layout example_heap (Some 1)"
  by (simp add: is_null_def example_heap_def cast_to_def UnsafeTerm_addr_def Term_addr_def
      x86_64_layout_def)

text \<open>
  C7, amended. The conversion of a non-null \<^verbatim>\<open>UnsafeTerm\<close> to a typed term \<open>T\<close>
  always returns a handle (the model has no failure to return): the null handle when
  the node is not an \<^verbatim>\<open>Expr<T>\<close>, and otherwise a non-null handle to the same node.
  The \<^verbatim>\<open>addr()\<close> of the untyped handle is the address of the \<^verbatim>\<open>UnsafeExpr\<close> base of
  the node and the \<^verbatim>\<open>addr()\<close> of the typed handle that of its \<^verbatim>\<open>Expr<T>\<close> base; they
  are equal exactly when the layout puts the two at the same offset.
\<close>

theorem cast_to_same_node:
  "\<not> is_null u \<longrightarrow>
     (if expr_type (h ! the u) = Some T
      then \<not> is_null (cast_to T h u) \<and> cast_to T h u = u \<and>
           UnsafeTerm_addr L h u = object_address L (the u) + UnsafeExpr_offset L (h ! the u) \<and>
           Term_addr L h (cast_to T h u) =
             object_address L (the u) + Expr_offset L (h ! the u) \<and>
           (Term_addr L h (cast_to T h u) = UnsafeTerm_addr L h u \<longleftrightarrow>
              Expr_offset L (h ! the u) = UnsafeExpr_offset L (h ! the u))
      else is_null (cast_to T h u))"
  by (cases u) (simp_all add: is_null_def cast_to_def UnsafeTerm_addr_def Term_addr_def)

theorem cast_to_same_node_witness:
  "\<not> is_null (Some 1) \<and>
   cast_to Int_t example_heap (Some 1) = Some 1 \<and>
   UnsafeTerm_addr x86_64_layout example_heap (Some 1) = 8192 + 112 \<and>
   Term_addr x86_64_layout example_heap (cast_to Int_t example_heap (Some 1)) = 8192 + 56 \<and>
   is_null (cast_to Bool_t example_heap (Some 1)) \<and>
   is_null (cast_to (Func [Int_t, Int_t]) example_heap (Some 3))"
proof -
  have n1: "\<not> is_null (Some 1)" and n3: "\<not> is_null (Some 3)"
    by (simp_all add: is_null_def)
  have t1: "expr_type (example_heap ! the (Some 1)) = Some Int_t"
    and t2: "expr_type (example_heap ! the (Some 1)) \<noteq> Some Bool_t"
    and t3: "expr_type (example_heap ! the (Some 3)) \<noteq> Some (Func [Int_t, Int_t])"
    by (simp_all add: example_heap_def numeral_3_eq_3)
  have o1: "object_address x86_64_layout (the (Some 1)) +
      UnsafeExpr_offset x86_64_layout (example_heap ! the (Some 1)) = 8192 + 112"
    and o2: "object_address x86_64_layout (the (Some 1)) +
      Expr_offset x86_64_layout (example_heap ! the (Some 1)) = 8192 + 56"
    by (simp_all add: example_heap_def x86_64_layout_def)
  from n1 t1 cast_to_same_node [of "Some 1" example_heap Int_t x86_64_layout]
  have a: "cast_to Int_t example_heap (Some 1) = Some 1 \<and>
      UnsafeTerm_addr x86_64_layout example_heap (Some 1) =
        object_address x86_64_layout (the (Some 1)) +
        UnsafeExpr_offset x86_64_layout (example_heap ! the (Some 1)) \<and>
      Term_addr x86_64_layout example_heap (cast_to Int_t example_heap (Some 1)) =
        object_address x86_64_layout (the (Some 1)) +
        Expr_offset x86_64_layout (example_heap ! the (Some 1))"
    by meson
  from n1 t2 cast_to_same_node [of "Some 1" example_heap Bool_t x86_64_layout]
  have b: "is_null (cast_to Bool_t example_heap (Some 1))"
    by (simp only: if_False simp_thms)
  from n3 t3 cast_to_same_node [of "Some 3" example_heap "Func [Int_t, Int_t]" x86_64_layout]
  have c: "is_null (cast_to (Func [Int_t, Int_t]) example_heap (Some 3))"
    by (simp only: if_False simp_thms)
  from n1 a b c o1 o2 show ?thesis by metis
qed

text \<open>
  C3. On at least two terms of type \<open>T\<close>, \<^verbatim>\<open>distinct\<close> returns a \<^verbatim>\<open>Bool\<close> term
  whose node is an n-ary expression of sort \<^verbatim>\<open>Bool\<close> with opcode \<^verbatim>\<open>NEQ\<close> and the
  given terms, in order, as operands. (The assertion of the constructor itself rejects
  the empty collection only, see \<open>distinct_terms_empty\<close>.)
\<close>

theorem distinct_builds_nary_neq:
  "2 \<le> length terms \<longrightarrow>
     (\<exists>t h'. distinct_terms T h terms = Inr (t, h') \<and>
        \<not> is_null t \<and>
        term_sort h' t = Inr (Static_Sort Bool_t) \<and>
        term_expr_kind h' t = Inr NARY_EXPR_KIND \<and>
        typed_term h' Bool_t t \<and>
        m_members (h' ! the t) = Nary_members NEQ terms \<and>
        operands_of (m_members (h' ! the t)) = terms)"
proof
  assume "2 \<le> length terms"
  then have ne: "terms \<noteq> []" by auto
  show "\<exists>t h'. distinct_terms T h terms = Inr (t, h') \<and>
        \<not> is_null t \<and>
        term_sort h' t = Inr (Static_Sort Bool_t) \<and>
        term_expr_kind h' t = Inr NARY_EXPR_KIND \<and>
        typed_term h' Bool_t t \<and>
        m_members (h' ! the t) = Nary_members NEQ terms \<and>
        operands_of (m_members (h' ! the t)) = terms"
    using ne
    by (simp add: distinct_terms_def NaryExpr_def UnsafeNaryExpr_def as_Expr_Inr build_Inr
        is_null_def term_sort_def term_expr_kind_def typed_term_def)
qed

theorem distinct_builds_nary_neq_witness:
  "2 \<le> length [Some 1, Some (2::nat)] \<and>
   (\<exists>t h'. distinct_terms Int_t example_heap [Some 1, Some 2] = Inr (t, h') \<and>
      term_sort h' t = Inr (Static_Sort Bool_t) \<and>
      term_expr_kind h' t = Inr NARY_EXPR_KIND \<and>
      operands_of (m_members (h' ! the t)) = [Some 1, Some 2])"
  using distinct_builds_nary_neq [of "[Some 1, Some 2]" Int_t example_heap]
  by auto

lemma distinct_terms_empty:
  "distinct_terms T h [] = Inl Assertion_Abort"
  by (simp add: distinct_terms_def NaryExpr_def UnsafeNaryExpr_def as_Expr_Inl build_Inl)

section \<open>Array selection on the unsafe path\<close>

lemma primitive_sorts_size:
  "IsPrimitive T \<Longrightarrow> sorts_size (static_sort T) = 0"
  by (cases T) (simp_all add: Sort_primitive_def sorts_size_def)

text \<open>
  C10, as stated, fails: a non-array sort need not have nested count 0. The sort of
  \<^verbatim>\<open>Func<Int, Int>\<close> is not an array sort and has two nested sorts, and the unsafe
  array-select node over a term of that sort is constructed, with the sort
  \<^verbatim>\<open>Int\<close>.
\<close>

theorem unsafe_select_function_sort_counterexample:
  "term_sort example_heap (Some 3) = Inr (Static_Sort (Func [Int_t, Int_t])) \<and>
   \<not> m_is_array (deref_sort two_arrays (Static_Sort (Func [Int_t, Int_t]))) \<and>
   sorts_size (deref_sort two_arrays (Static_Sort (Func [Int_t, Int_t]))) = 2 \<and>
   UnsafeArraySelectExpr two_arrays example_heap (Some 3) (Some 1) =
     Inr \<lparr> m_expr_kind = ARRAY_SELECT_EXPR_KIND, m_sort = Static_Sort Int_t,
           expr_type = None, m_members = ArraySelect_members (Some 3) (Some 1) \<rparr>"
  by (simp add: example_heap_def term_sort_def UnsafeArraySelectExpr_def sorts_def
      check_sorts_index_def Sort_composite_def sorts_size_def UnsafeArraySelectExpr_body_def
      is_null_def numeral_3_eq_3)

text \<open>
  C10, amended. For a non-null untyped term, constructing an unsafe array-select node
  over it raises \<^verbatim>\<open>std::out_of_range\<close> exactly when its sort has fewer than two
  nested sorts, whatever the index handle is; the registry sorts of the primitive
  types (\<^verbatim>\<open>Bool\<close>, \<^verbatim>\<open>Int\<close>, \<^verbatim>\<open>Real\<close>, bit vectors) have no nested sort, so a term
  of such a sort is rejected.
\<close>

theorem unsafe_select_out_of_range:
  "(\<not> is_null array \<longrightarrow>
      (UnsafeArraySelectExpr mem h array index = Inl Out_Of_Range \<longleftrightarrow>
         sorts_size (deref_sort mem (m_sort (h ! the array))) < 2)) \<and>
   (\<not> is_null array \<and> IsPrimitive T \<and> term_sort h array = Inr (Static_Sort T) \<longrightarrow>
      UnsafeArraySelectExpr mem h array index = Inl Out_Of_Range)"
proof -
  have a: "\<not> is_null array \<longrightarrow>
      (UnsafeArraySelectExpr mem h array index = Inl Out_Of_Range \<longleftrightarrow>
         sorts_size (deref_sort mem (m_sort (h ! the array))) < 2)"
    by (cases array)
       (auto simp add: is_null_def UnsafeArraySelectExpr_def term_sort_def sorts_def
          check_sorts_index_def sorts_size_def UnsafeArraySelectExpr_body_def)
  have b: "\<not> is_null array \<and> IsPrimitive T \<and> term_sort h array = Inr (Static_Sort T) \<longrightarrow>
      UnsafeArraySelectExpr mem h array index = Inl Out_Of_Range"
  proof
    assume h: "\<not> is_null array \<and> IsPrimitive T \<and> term_sort h array = Inr (Static_Sort T)"
    then have "sorts_size (static_sort T) = 0" by (simp add: primitive_sorts_size)
    with h show "UnsafeArraySelectExpr mem h array index = Inl Out_Of_Range"
      by (simp add: UnsafeArraySelectExpr_def sorts_def check_sorts_index_def sorts_size_def)
  qed
  from a b show ?thesis by blast
qed

theorem unsafe_select_out_of_range_witness:
  "\<not> is_null (Some 1) \<and> IsPrimitive Int_t \<and>
   term_sort example_heap (Some 1) = Inr (Static_Sort Int_t) \<and>
   sorts_size (deref_sort two_arrays (m_sort (example_heap ! 1))) < 2 \<and>
   UnsafeArraySelectExpr two_arrays example_heap (Some 1) None = Inl Out_Of_Range"
  using unsafe_select_out_of_range [of "Some 1" two_arrays example_heap None Int_t]
  by (simp add: is_null_def example_heap_def term_sort_def sorts_size_def Sort_primitive_def)

section \<open>Null operands\<close>

lemma checks_operands_as_Expr:
  "checks_operands ops r \<Longrightarrow> checks_operands ops (as_Expr U r)"
  by (cases r) (simp_all add: checks_operands_def as_Expr_def)

lemma checks_unary: "checks_operands [x] (UnsafeUnaryExpr s opc x)"
  by (simp add: checks_operands_def UnsafeUnaryExpr_def)

lemma checks_binary: "checks_operands [l, r] (UnsafeBinaryExpr s opc l r)"
  by (simp add: checks_operands_def UnsafeBinaryExpr_def)

lemma checks_const_array: "checks_operands [x] (UnsafeConstArrayExpr s x)"
  by (simp add: checks_operands_def UnsafeConstArrayExpr_def)

lemma checks_select_body: "checks_operands [a, i] (UnsafeArraySelectExpr_body s a i)"
  by (simp add: checks_operands_def UnsafeArraySelectExpr_body_def)

lemma checks_store_body: "checks_operands [a, i, v] (UnsafeArrayStoreExpr_body s a i v)"
  by (simp add: checks_operands_def UnsafeArrayStoreExpr_body_def)

lemma checks_store: "checks_operands [a, i, v] (UnsafeArrayStoreExpr h a i v)"
proof (cases a)
  case None
  then show ?thesis
    by (simp add: UnsafeArrayStoreExpr_def term_sort_def checks_operands_def is_null_def)
next
  case (Some p)
  then show ?thesis
    by (simp add: UnsafeArrayStoreExpr_def term_sort_def checks_store_body)
qed

lemma checks_select:
  "is_null a \<or> 2 \<le> sorts_size (deref_sort mem (m_sort (h ! the a))) \<Longrightarrow>
     checks_operands [a, i] (UnsafeArraySelectExpr mem h a i)"
  by (cases a)
     (auto simp add: UnsafeArraySelectExpr_def term_sort_def checks_select_body
        checks_operands_def is_null_def sorts_def check_sorts_index_def sorts_size_def
        UnsafeArraySelectExpr_body_def)

lemma select_sorts_index:
  "\<not> is_null a \<Longrightarrow> sorts_size (deref_sort mem (m_sort (h ! the a))) < 2 \<Longrightarrow>
     UnsafeArraySelectExpr mem h a i = Inl Out_Of_Range"
  by (cases a)
     (simp_all add: is_null_def UnsafeArraySelectExpr_def term_sort_def sorts_def
        check_sorts_index_def sorts_size_def)

text \<open>
  C9, as stated, fails twice: the n-ary constructor accepts a null operand, and the
  unsafe array-select constructor fails although both operands are non-null.
\<close>

theorem constructor_null_operand_counterexample:
  "UnsafeNaryExpr (Static_Sort Bool_t) NEQ [None, Some 1] =
     Inr \<lparr> m_expr_kind = NARY_EXPR_KIND, m_sort = Static_Sort Bool_t, expr_type = None,
           m_members = Nary_members NEQ [None, Some 1] \<rparr> \<and>
   is_null None \<and>
   \<not> is_null (Some 1) \<and> \<not> is_null (Some 2) \<and>
   UnsafeArraySelectExpr two_arrays example_heap (Some 1) (Some 2) = Inl Out_Of_Range"
  by (simp add: UnsafeNaryExpr_def is_null_def UnsafeArraySelectExpr_def term_sort_def
      example_heap_def sorts_def check_sorts_index_def Sort_primitive_def)

text \<open>
  C9, amended. The unary, binary, constant-array and array-store constructors, typed
  and unsafe, and the typed array-select constructor abort on a null operand and
  otherwise return a node holding exactly the given, non-null operands. The unsafe
  array-select constructor does so when its array operand is null or has a sort with at
  least two nested sorts, and throws \<^verbatim>\<open>std::out_of_range\<close> when the array operand
  is non-null and its sort has fewer. The n-ary constructor aborts exactly on an empty operand
  list and otherwise returns a node holding the given operands.
\<close>

theorem constructors_check_operands:
  "checks_operands [x] (UnsafeUnaryExpr s opc x) \<and>
   checks_operands [x] (UnaryExpr opc T U x) \<and>
   checks_operands [l, r] (UnsafeBinaryExpr s opc l r) \<and>
   checks_operands [l, r] (BinaryExpr opc T U l r) \<and>
   checks_operands [x] (UnsafeConstArrayExpr s x) \<and>
   checks_operands [x] (ConstArrayExpr D R x) \<and>
   checks_operands [a, i] (ArraySelectExpr D R a i) \<and>
   checks_operands [a, i, v] (UnsafeArrayStoreExpr h a i v) \<and>
   checks_operands [a, i, v] (ArrayStoreExpr D R a i v) \<and>
   (is_null a \<or> 2 \<le> sorts_size (deref_sort mem (m_sort (h ! the a))) \<longrightarrow>
      checks_operands [a, i] (UnsafeArraySelectExpr mem h a i)) \<and>
   (\<not> is_null a \<and> sorts_size (deref_sort mem (m_sort (h ! the a))) < 2 \<longrightarrow>
      UnsafeArraySelectExpr mem h a i = Inl Out_Of_Range) \<and>
   (UnsafeNaryExpr ns nopc ops = Inl Assertion_Abort \<longleftrightarrow> ops = []) \<and>
   (ops \<noteq> [] \<longrightarrow>
      (\<exists>n. UnsafeNaryExpr ns nopc ops = Inr n \<and> operands_of (m_members n) = ops) \<and>
      (\<exists>n. NaryExpr nopc T U ops = Inr n \<and> operands_of (m_members n) = ops))"
proof -
  have n1: "UnsafeNaryExpr ns nopc ops = Inl Assertion_Abort \<longleftrightarrow> ops = []"
    by (simp add: UnsafeNaryExpr_def)
  have n2: "ops \<noteq> [] \<longrightarrow>
      (\<exists>n. UnsafeNaryExpr ns nopc ops = Inr n \<and> operands_of (m_members n) = ops) \<and>
      (\<exists>n. NaryExpr nopc T U ops = Inr n \<and> operands_of (m_members n) = ops)"
    by (simp add: UnsafeNaryExpr_def NaryExpr_def as_Expr_def)
  have t1: "checks_operands [x] (UnaryExpr opc T U x)"
    unfolding UnaryExpr_def by (rule checks_operands_as_Expr [OF checks_unary])
  have t2: "checks_operands [l, r] (BinaryExpr opc T U l r)"
    unfolding BinaryExpr_def by (rule checks_operands_as_Expr [OF checks_binary])
  have t3: "checks_operands [x] (ConstArrayExpr D R x)"
    unfolding ConstArrayExpr_def by (rule checks_operands_as_Expr [OF checks_const_array])
  have t4: "checks_operands [a, i] (ArraySelectExpr D R a i)"
    unfolding ArraySelectExpr_def by (rule checks_operands_as_Expr [OF checks_select_body])
  have t5: "checks_operands [a, i, v] (ArrayStoreExpr D R a i v)"
    unfolding ArrayStoreExpr_def by (rule checks_operands_as_Expr [OF checks_store_body])
  have sel: "is_null a \<or> 2 \<le> sorts_size (deref_sort mem (m_sort (h ! the a))) \<longrightarrow>
      checks_operands [a, i] (UnsafeArraySelectExpr mem h a i)"
    by (blast intro: checks_select)
  have oor: "\<not> is_null a \<and> sorts_size (deref_sort mem (m_sort (h ! the a))) < 2 \<longrightarrow>
      UnsafeArraySelectExpr mem h a i = Inl Out_Of_Range"
    by (blast intro: select_sorts_index)
  from n1 n2 t1 t2 t3 t4 t5 sel oor checks_unary [of x s opc] checks_binary [of l r s opc]
    checks_const_array [of x s] checks_store [of a i v h]
  show ?thesis by blast
qed

theorem constructors_check_operands_witness:
  "checks_operands [None] (UnsafeUnaryExpr (Static_Sort Int_t) SUB None) \<and>
   UnsafeUnaryExpr (Static_Sort Int_t) SUB None = Inl Assertion_Abort \<and>
   checks_operands [Some 0, Some 1, Some 2]
     (ArrayStoreExpr Int_t Int_t (Some 0) (Some 1) (Some 2)) \<and>
   checks_operands [Some 0, Some 1] (UnsafeArraySelectExpr two_arrays example_heap (Some 0) (Some 1)) \<and>
   UnsafeArraySelectExpr two_arrays example_heap (Some 0) (Some 1) =
     Inr \<lparr> m_expr_kind = ARRAY_SELECT_EXPR_KIND, m_sort = Static_Sort Int_t,
           expr_type = None, m_members = ArraySelect_members (Some 0) (Some 1) \<rparr> \<and>
   (\<exists>n. UnsafeNaryExpr (Static_Sort Bool_t) NEQ [Some 1, Some 2] = Inr n \<and>
      operands_of (m_members n) = [Some 1, Some 2])"
proof -
  note w = constructors_check_operands [of None "Static_Sort Int_t" SUB Int_t Int_t None None
      Int_t Int_t "Some 0" "Some 1" "Some 2" example_heap two_arrays "Static_Sort Bool_t" NEQ
      "[Some 1, Some 2]"]
  have c1: "checks_operands [None] (UnsafeUnaryExpr (Static_Sort Int_t) SUB None)"
    using w by blast
  have c2: "UnsafeUnaryExpr (Static_Sort Int_t) SUB None = Inl Assertion_Abort"
    using c1 by (simp add: checks_operands_def is_null_def split: sum.splits)
  have c3: "checks_operands [Some 0, Some 1, Some 2]
     (ArrayStoreExpr Int_t Int_t (Some 0) (Some 1) (Some 2))"
    using w by blast
  have p4: "2 \<le> sorts_size (deref_sort two_arrays (m_sort (example_heap ! the (Some 0))))"
    by (simp add: example_heap_def Sort_composite_def sorts_size_def)
  have c4: "checks_operands [Some 0, Some 1]
     (UnsafeArraySelectExpr two_arrays example_heap (Some 0) (Some 1))"
    using w p4 by blast
  have c5: "UnsafeArraySelectExpr two_arrays example_heap (Some 0) (Some 1) =
     Inr \<lparr> m_expr_kind = ARRAY_SELECT_EXPR_KIND, m_sort = Static_Sort Int_t,
           expr_type = None, m_members = ArraySelect_members (Some 0) (Some 1) \<rparr>"
    by (simp add: example_heap_def Sort_composite_def UnsafeArraySelectExpr_def term_sort_def
        sorts_def check_sorts_index_def UnsafeArraySelectExpr_body_def is_null_def)
  have p6: "[Some 1, Some (2::nat)] \<noteq> []" by simp
  have c6: "\<exists>n. UnsafeNaryExpr (Static_Sort Bool_t) NEQ [Some 1, Some 2] = Inr n \<and>
      operands_of (m_members n) = [Some 1, Some 2]"
    using w p6 by blast
  from c1 c2 c3 c4 c5 c6 show ?thesis by blast
qed

section \<open>The heap under the typed builders\<close>

lemma wf_heap_append:
  "wf_heap h \<Longrightarrow> sorted_by_type n \<Longrightarrow> wf_heap (h @ [n])"
  by (simp add: wf_heap_def)

lemma typed_term_sort:
  "wf_heap h \<Longrightarrow> typed_term h T t \<Longrightarrow> \<not> is_null t \<Longrightarrow> term_sort h t = Inr (Static_Sort T)"
  by (cases t)
     (auto simp add: is_null_def typed_term_def term_sort_def wf_heap_def list_all_length
        sorted_by_type_def)

lemma typed_term_valid:
  "typed_term h T t \<Longrightarrow> valid_term h t"
  by (cases t) (simp_all add: typed_term_def valid_term_def)

lemma term_sort_append:
  "valid_term h t \<Longrightarrow> term_sort (h @ [n]) t = term_sort h t"
  by (cases t) (simp_all add: valid_term_def term_sort_def nth_append)

lemma term_expr_kind_append:
  "valid_term h t \<Longrightarrow> term_expr_kind (h @ [n]) t = term_expr_kind h t"
  by (cases t) (simp_all add: valid_term_def term_expr_kind_def nth_append)

lemma node_append:
  "valid_term h t \<Longrightarrow> \<not> is_null t \<Longrightarrow> (h @ [n]) ! the t = h ! the t"
  by (cases t) (simp_all add: valid_term_def is_null_def nth_append)

lemma as_Expr_sorted:
  "as_Expr U r = Inr n \<Longrightarrow> sorted_by_type n"
  by (cases r) (auto simp add: as_Expr_def sorted_by_type_def)

lemma store_node:
  "\<not> is_null a \<Longrightarrow> \<not> is_null i \<Longrightarrow> \<not> is_null v \<Longrightarrow>
     ArrayStoreExpr D R a i v =
       Inr \<lparr> m_expr_kind = ARRAY_STORE_EXPR_KIND, m_sort = Static_Sort (Array D R),
             expr_type = Some (Array D R), m_members = ArrayStore_members a i v \<rparr>"
  by (simp add: ArrayStoreExpr_def UnsafeArrayStoreExpr_body_def as_Expr_def)

text \<open>
  C4. On non-null terms \<open>a\<close> of type \<^verbatim>\<open>Array<D, R>\<close>, \<open>i\<close> of type \<open>D\<close> and \<open>v\<close> of type
  \<open>R\<close>, \<^verbatim>\<open>store\<close> returns a handle to a new node (one the heap did not hold) of kind
  \<^verbatim>\<open>ARRAY_STORE_EXPR_KIND\<close> whose sort is the sort of \<open>a\<close>, the registry sort of
  \<^verbatim>\<open>Array<D, R>\<close>. The heap afterwards is the heap before with the new node added: no
  node is changed, and \<open>a\<close>, \<open>i\<close> and \<open>v\<close> refer to the nodes they referred to.
\<close>

theorem store_functional_update:
  "wf_heap h \<and> typed_term h (Array D R) a \<and> typed_term h D i \<and> typed_term h R v \<and>
   \<not> is_null a \<and> \<not> is_null i \<and> \<not> is_null v \<longrightarrow>
     (\<exists>t h'. store D R h a i v = Inr (t, h') \<and>
        \<not> is_null t \<and> \<not> valid_term h t \<and> valid_term h' t \<and>
        term_expr_kind h' t = Inr ARRAY_STORE_EXPR_KIND \<and>
        term_sort h' t = term_sort h a \<and>
        term_sort h' t = Inr (Static_Sort (Array D R)) \<and>
        typed_term h' (Array D R) t \<and>
        operands_of (m_members (h' ! the t)) = [a, i, v] \<and>
        take (length h) h' = h \<and> length h' = Suc (length h) \<and>
        h' ! the a = h ! the a \<and> h' ! the i = h ! the i \<and> h' ! the v = h ! the v \<and>
        term_sort h' a = term_sort h a \<and> term_sort h' i = term_sort h i \<and>
        term_sort h' v = term_sort h v \<and>
        wf_heap h')"
proof
  assume asm: "wf_heap h \<and> typed_term h (Array D R) a \<and> typed_term h D i \<and>
    typed_term h R v \<and> \<not> is_null a \<and> \<not> is_null i \<and> \<not> is_null v"
  let ?n = "\<lparr> m_expr_kind = ARRAY_STORE_EXPR_KIND, m_sort = Static_Sort (Array D R),
             expr_type = Some (Array D R), m_members = ArrayStore_members a i v \<rparr>"
  let ?t = "Some (length h)"
  let ?h = "h @ [?n]"
  from asm have va: "valid_term h a" and vi: "valid_term h i" and vv: "valid_term h v"
    by (auto intro: typed_term_valid)
  have st: "store D R h a i v = Inr (?t, ?h)"
    using asm by (simp add: store_def store_node build_def new_def)
  have sa: "term_sort h a = Inr (Static_Sort (Array D R))"
    using asm by (simp add: typed_term_sort)
  have fresh: "\<not> is_null ?t \<and> \<not> valid_term h ?t \<and> valid_term ?h ?t"
    by (simp add: is_null_def valid_term_def)
  have node: "term_expr_kind ?h ?t = Inr ARRAY_STORE_EXPR_KIND \<and>
      term_sort ?h ?t = Inr (Static_Sort (Array D R)) \<and>
      typed_term ?h (Array D R) ?t \<and>
      operands_of (m_members (?h ! the ?t)) = [a, i, v]"
    by (simp add: term_expr_kind_def term_sort_def typed_term_def)
  have frame: "take (length h) ?h = h \<and> length ?h = Suc (length h)"
    by simp
  have same: "?h ! the a = h ! the a \<and> ?h ! the i = h ! the i \<and> ?h ! the v = h ! the v"
    using asm va vi vv by (simp add: node_append)
  have sorts_same: "term_sort ?h a = term_sort h a \<and> term_sort ?h i = term_sort h i \<and>
      term_sort ?h v = term_sort h v"
    using va vi vv by (simp add: term_sort_append)
  have wf: "wf_heap ?h"
    using asm by (simp add: wf_heap_append sorted_by_type_def)
  show "\<exists>t h'. store D R h a i v = Inr (t, h') \<and>
        \<not> is_null t \<and> \<not> valid_term h t \<and> valid_term h' t \<and>
        term_expr_kind h' t = Inr ARRAY_STORE_EXPR_KIND \<and>
        term_sort h' t = term_sort h a \<and>
        term_sort h' t = Inr (Static_Sort (Array D R)) \<and>
        typed_term h' (Array D R) t \<and>
        operands_of (m_members (h' ! the t)) = [a, i, v] \<and>
        take (length h) h' = h \<and> length h' = Suc (length h) \<and>
        h' ! the a = h ! the a \<and> h' ! the i = h ! the i \<and> h' ! the v = h ! the v \<and>
        term_sort h' a = term_sort h a \<and> term_sort h' i = term_sort h i \<and>
        term_sort h' v = term_sort h v \<and>
        wf_heap h'"
    using st sa fresh node frame same sorts_same wf
    by (intro exI [of _ ?t] exI [of _ ?h]) (simp only: simp_thms)
qed

lemma example_heap_wf: "wf_heap example_heap"
  by (simp add: example_heap_def wf_heap_def sorted_by_type_def)

theorem store_functional_update_witness:
  "wf_heap example_heap \<and> typed_term example_heap (Array Int_t Int_t) (Some 0) \<and>
   typed_term example_heap Int_t (Some 1) \<and> typed_term example_heap Int_t (Some 2) \<and>
   \<not> is_null (Some 0) \<and> \<not> is_null (Some 1) \<and> \<not> is_null (Some 2) \<and>
   (\<exists>t h'. store Int_t Int_t example_heap (Some 0) (Some 1) (Some 2) = Inr (t, h') \<and>
      term_expr_kind h' t = Inr ARRAY_STORE_EXPR_KIND \<and>
      term_sort h' t = term_sort example_heap (Some 0) \<and>
      take (length example_heap) h' = example_heap)"
proof -
  have p: "wf_heap example_heap \<and> typed_term example_heap (Array Int_t Int_t) (Some 0) \<and>
   typed_term example_heap Int_t (Some 1) \<and> typed_term example_heap Int_t (Some 2) \<and>
   \<not> is_null (Some 0) \<and> \<not> is_null (Some 1) \<and> \<not> is_null (Some 2)"
    using example_heap_wf by (simp add: typed_term_def is_null_def example_heap_def)
  from p store_functional_update [of example_heap Int_t Int_t "Some 0" "Some 1" "Some 2"]
  show ?thesis by blast
qed

section \<open>Overloaded binary operators\<close>

lemma binary_node:
  "\<not> is_null l \<Longrightarrow> \<not> is_null r \<Longrightarrow>
     BinaryExpr opcode T U l r =
       Inr \<lparr> m_expr_kind = BINARY_EXPR_KIND, m_sort = Static_Sort U, expr_type = Some U,
             m_members = Binary_members opcode l r \<rparr>"
  by (simp add: BinaryExpr_def UnsafeBinaryExpr_def as_Expr_def)

lemma typed_operator_rel:
  "opcode \<in> {EQL, NEQ, LSS, LEQ, GTR, GEQ} \<Longrightarrow>
     typed_operator opcode T h l r = Some (build h (BinaryExpr opcode T Bool_t l r))"
  by (auto simp add: typed_operator_def SMT_BUILTIN_BINARY_REL_def
      SMT_BUILTIN_BOOL_BINARY_OP_def)

lemma typed_operator_arith:
  "opcode \<in> {ADD, SUB, MUL, QUO, REM} \<Longrightarrow>
     typed_operator opcode T h l r = Some (build h (BinaryExpr opcode T T l r))"
  by (auto simp add: typed_operator_def SMT_BUILTIN_BINARY_OP_def)

lemma typed_operator_bitwise:
  "opcode \<in> {AND, OR, XOR} \<Longrightarrow>
     typed_operator opcode (Bv U) h l r = Some (build h (BinaryExpr opcode (Bv U) (Bv U) l r))"
  by (auto simp add: typed_operator_def SMT_BUILTIN_BV_BINARY_OP_def)

lemma typed_operator_bitwise_other:
  "opcode \<in> {AND, OR, XOR} \<Longrightarrow> \<forall>U. T \<noteq> Bv U \<Longrightarrow>
     typed_operator opcode T h l r = Some (SMT_UNSAFE_BINARY_OP opcode h l r)"
  by (cases T) (auto simp add: typed_operator_def)

lemma build_binary_node:
  "\<not> is_null l \<Longrightarrow> \<not> is_null r \<Longrightarrow>
     build h (BinaryExpr opcode T U l r) =
       Inr (Some (length h),
            h @ [\<lparr> m_expr_kind = BINARY_EXPR_KIND, m_sort = Static_Sort U,
                    expr_type = Some U, m_members = Binary_members opcode l r \<rparr>])"
  by (simp add: binary_node build_Inr)

lemma unsafe_binary_op_node:
  "term_sort h l = Inr s \<Longrightarrow> \<not> is_null l \<Longrightarrow> \<not> is_null r \<Longrightarrow>
     SMT_UNSAFE_BINARY_OP opcode h l r =
       Inr (Some (length h),
            h @ [\<lparr> m_expr_kind = BINARY_EXPR_KIND, m_sort = s,
                    expr_type = None, m_members = Binary_members opcode l r \<rparr>])"
  by (simp add: SMT_UNSAFE_BINARY_OP_def UnsafeBinaryExpr_def build_Inr)

lemma unsafe_binary_rel_node:
  "\<not> is_null l \<Longrightarrow> \<not> is_null r \<Longrightarrow>
     SMT_UNSAFE_BINARY_REL opcode h l r =
       Inr (Some (length h),
            h @ [\<lparr> m_expr_kind = BINARY_EXPR_KIND, m_sort = Static_Sort Bool_t,
                    expr_type = None, m_members = Binary_members opcode l r \<rparr>])"
  by (simp add: SMT_UNSAFE_BINARY_REL_def UnsafeBinaryExpr_def build_Inr)

lemma new_term_observed:
  "\<not> is_null (Some (length h)) \<and> \<not> valid_term h (Some (length h)) \<and>
   valid_term (h @ [n]) (Some (length h)) \<and>
   term_sort (h @ [n]) (Some (length h)) = Inr (m_sort n) \<and>
   term_expr_kind (h @ [n]) (Some (length h)) = Inr (m_expr_kind n) \<and>
   take (length h) (h @ [n]) = h"
  by (simp add: is_null_def valid_term_def term_sort_def term_expr_kind_def)

text \<open>
  C2. On two non-null typed terms \<open>l\<close> and \<open>r\<close> of type \<open>T\<close>, whose sort is the
  registry sort of \<open>T\<close>, every binary operator adds one node to the heap and returns
  the handle to it, a handle the heap before did not hold: a binary expression with the
  operator's opcode and the operands \<open>l\<close> and \<open>r\<close>. For the relational operators
  \<^verbatim>\<open>== != < <= > >=\<close> the node is an \<^verbatim>\<open>Expr<Bool>\<close> of sort \<^verbatim>\<open>Bool\<close>; for the
  arithmetic operators \<^verbatim>\<open>+ - * / %\<close> it is an \<^verbatim>\<open>Expr<T>\<close> of the sort of \<open>T\<close>; for
  the bitwise operators \<^verbatim>\<open>& | ^\<close> it has the sort of \<open>T\<close> too, as an \<^verbatim>\<open>Expr<T>\<close>
  on bit vectors and as an unsafe node on terms of another type. On two non-null
  unsafe terms the relational operators add a binary node of sort \<^verbatim>\<open>Bool\<close> and the
  arithmetic and bitwise operators a binary node carrying the sort of the left
  operand, which is the sort of both when the operands have the same sort.
\<close>

theorem binary_operator_sorts:
  "(wf_heap h \<and> typed_term h T l \<and> typed_term h T r \<and> \<not> is_null l \<and> \<not> is_null r \<longrightarrow>
      term_sort h l = Inr (Static_Sort T) \<and> term_sort h r = Inr (Static_Sort T) \<and>
      (opcode \<in> {EQL, NEQ, LSS, LEQ, GTR, GEQ} \<longrightarrow>
         typed_operator opcode T h l r =
           Some (Inr (Some (length h),
                 h @ [\<lparr> m_expr_kind = BINARY_EXPR_KIND, m_sort = Static_Sort Bool_t,
                         expr_type = Some Bool_t,
                         m_members = Binary_members opcode l r \<rparr>]))) \<and>
      (opcode \<in> {ADD, SUB, MUL, QUO, REM} \<longrightarrow>
         typed_operator opcode T h l r =
           Some (Inr (Some (length h),
                 h @ [\<lparr> m_expr_kind = BINARY_EXPR_KIND, m_sort = Static_Sort T,
                         expr_type = Some T,
                         m_members = Binary_members opcode l r \<rparr>]))) \<and>
      (opcode \<in> {AND, OR, XOR} \<longrightarrow>
         typed_operator opcode T h l r =
           Some (Inr (Some (length h),
                 h @ [\<lparr> m_expr_kind = BINARY_EXPR_KIND, m_sort = Static_Sort T,
                         expr_type = (case T of Bv U \<Rightarrow> Some T | _ \<Rightarrow> None),
                         m_members = Binary_members opcode l r \<rparr>])))) \<and>
   (\<not> is_null l \<and> \<not> is_null r \<longrightarrow>
      (opcode \<in> {EQL, NEQ, LSS, LEQ, GTR, GEQ} \<longrightarrow>
         unsafe_operator opcode h l r =
           Some (Inr (Some (length h),
                 h @ [\<lparr> m_expr_kind = BINARY_EXPR_KIND, m_sort = Static_Sort Bool_t,
                         expr_type = None,
                         m_members = Binary_members opcode l r \<rparr>]))) \<and>
      (opcode \<in> {ADD, SUB, MUL, QUO, REM, AND, OR, XOR} \<longrightarrow>
         term_sort h l = Inr (m_sort (h ! the l)) \<and>
         (term_sort h r = term_sort h l \<longrightarrow> term_sort h r = Inr (m_sort (h ! the l))) \<and>
         unsafe_operator opcode h l r =
           Some (Inr (Some (length h),
                 h @ [\<lparr> m_expr_kind = BINARY_EXPR_KIND, m_sort = m_sort (h ! the l),
                         expr_type = None,
                         m_members = Binary_members opcode l r \<rparr>])))) \<and>
   (\<not> is_null (Some (length h)) \<and> \<not> valid_term h (Some (length h)) \<and>
    valid_term (h @ [n]) (Some (length h)) \<and>
    term_sort (h @ [n]) (Some (length h)) = Inr (m_sort n) \<and>
    term_expr_kind (h @ [n]) (Some (length h)) = Inr (m_expr_kind n) \<and>
    take (length h) (h @ [n]) = h)"
proof -
  have typed: "wf_heap h \<and> typed_term h T l \<and> typed_term h T r \<and> \<not> is_null l \<and> \<not> is_null r \<longrightarrow>
      term_sort h l = Inr (Static_Sort T) \<and> term_sort h r = Inr (Static_Sort T) \<and>
      (opcode \<in> {EQL, NEQ, LSS, LEQ, GTR, GEQ} \<longrightarrow>
         typed_operator opcode T h l r =
           Some (Inr (Some (length h),
                 h @ [\<lparr> m_expr_kind = BINARY_EXPR_KIND, m_sort = Static_Sort Bool_t,
                         expr_type = Some Bool_t,
                         m_members = Binary_members opcode l r \<rparr>]))) \<and>
      (opcode \<in> {ADD, SUB, MUL, QUO, REM} \<longrightarrow>
         typed_operator opcode T h l r =
           Some (Inr (Some (length h),
                 h @ [\<lparr> m_expr_kind = BINARY_EXPR_KIND, m_sort = Static_Sort T,
                         expr_type = Some T,
                         m_members = Binary_members opcode l r \<rparr>]))) \<and>
      (opcode \<in> {AND, OR, XOR} \<longrightarrow>
         typed_operator opcode T h l r =
           Some (Inr (Some (length h),
                 h @ [\<lparr> m_expr_kind = BINARY_EXPR_KIND, m_sort = Static_Sort T,
                         expr_type = (case T of Bv U \<Rightarrow> Some T | _ \<Rightarrow> None),
                         m_members = Binary_members opcode l r \<rparr>])))"
  proof (intro impI conjI)
    assume asm: "wf_heap h \<and> typed_term h T l \<and> typed_term h T r \<and> \<not> is_null l \<and> \<not> is_null r"
    then show sl: "term_sort h l = Inr (Static_Sort T)"
      and "term_sort h r = Inr (Static_Sort T)"
      by (simp_all add: typed_term_sort)
    {
      assume "opcode \<in> {EQL, NEQ, LSS, LEQ, GTR, GEQ}"
      then have "typed_operator opcode T h l r = Some (build h (BinaryExpr opcode T Bool_t l r))"
        by (rule typed_operator_rel)
      with asm show "typed_operator opcode T h l r =
           Some (Inr (Some (length h),
                 h @ [\<lparr> m_expr_kind = BINARY_EXPR_KIND, m_sort = Static_Sort Bool_t,
                         expr_type = Some Bool_t,
                         m_members = Binary_members opcode l r \<rparr>]))"
        by (simp add: build_binary_node)
    }
    {
      assume "opcode \<in> {ADD, SUB, MUL, QUO, REM}"
      then have "typed_operator opcode T h l r = Some (build h (BinaryExpr opcode T T l r))"
        by (rule typed_operator_arith)
      with asm show "typed_operator opcode T h l r =
           Some (Inr (Some (length h),
                 h @ [\<lparr> m_expr_kind = BINARY_EXPR_KIND, m_sort = Static_Sort T,
                         expr_type = Some T,
                         m_members = Binary_members opcode l r \<rparr>]))"
        by (simp add: build_binary_node)
    }
    {
      assume op: "opcode \<in> {AND, OR, XOR}"
      show "typed_operator opcode T h l r =
           Some (Inr (Some (length h),
                 h @ [\<lparr> m_expr_kind = BINARY_EXPR_KIND, m_sort = Static_Sort T,
                         expr_type = (case T of Bv U \<Rightarrow> Some T | _ \<Rightarrow> None),
                         m_members = Binary_members opcode l r \<rparr>]))"
      proof (cases "\<exists>U. T = Bv U")
        case True
        then obtain U where T: "T = Bv U" by blast
        from op have "typed_operator opcode (Bv U) h l r =
            Some (build h (BinaryExpr opcode (Bv U) (Bv U) l r))"
          by (rule typed_operator_bitwise)
        with asm T show ?thesis by (simp add: build_binary_node)
      next
        case False
        then have no: "\<forall>U. T \<noteq> Bv U" by blast
        then have ty: "(case T of Bv U \<Rightarrow> Some T | _ \<Rightarrow> None) = None"
          by (cases T) simp_all
        from op no have "typed_operator opcode T h l r = Some (SMT_UNSAFE_BINARY_OP opcode h l r)"
          by (rule typed_operator_bitwise_other)
        with asm sl ty show ?thesis by (simp add: unsafe_binary_op_node)
      qed
    }
  qed
  have unsafe: "\<not> is_null l \<and> \<not> is_null r \<longrightarrow>
      (opcode \<in> {EQL, NEQ, LSS, LEQ, GTR, GEQ} \<longrightarrow>
         unsafe_operator opcode h l r =
           Some (Inr (Some (length h),
                 h @ [\<lparr> m_expr_kind = BINARY_EXPR_KIND, m_sort = Static_Sort Bool_t,
                         expr_type = None,
                         m_members = Binary_members opcode l r \<rparr>]))) \<and>
      (opcode \<in> {ADD, SUB, MUL, QUO, REM, AND, OR, XOR} \<longrightarrow>
         term_sort h l = Inr (m_sort (h ! the l)) \<and>
         (term_sort h r = term_sort h l \<longrightarrow> term_sort h r = Inr (m_sort (h ! the l))) \<and>
         unsafe_operator opcode h l r =
           Some (Inr (Some (length h),
                 h @ [\<lparr> m_expr_kind = BINARY_EXPR_KIND, m_sort = m_sort (h ! the l),
                         expr_type = None,
                         m_members = Binary_members opcode l r \<rparr>])))"
  proof (intro impI conjI)
    assume asm: "\<not> is_null l \<and> \<not> is_null r"
    assume "opcode \<in> {EQL, NEQ, LSS, LEQ, GTR, GEQ}"
    then have "unsafe_operator opcode h l r = Some (SMT_UNSAFE_BINARY_REL opcode h l r)"
      by (auto simp add: unsafe_operator_def)
    with asm show "unsafe_operator opcode h l r =
           Some (Inr (Some (length h),
                 h @ [\<lparr> m_expr_kind = BINARY_EXPR_KIND, m_sort = Static_Sort Bool_t,
                         expr_type = None,
                         m_members = Binary_members opcode l r \<rparr>]))"
      by (simp add: unsafe_binary_rel_node)
  next
    assume asm: "\<not> is_null l \<and> \<not> is_null r"
    then show sl: "term_sort h l = Inr (m_sort (h ! the l))"
      by (cases l) (simp_all add: is_null_def term_sort_def)
    assume "opcode \<in> {ADD, SUB, MUL, QUO, REM, AND, OR, XOR}"
    then have "unsafe_operator opcode h l r = Some (SMT_UNSAFE_BINARY_OP opcode h l r)"
      by (auto simp add: unsafe_operator_def)
    with asm sl show "unsafe_operator opcode h l r =
           Some (Inr (Some (length h),
                 h @ [\<lparr> m_expr_kind = BINARY_EXPR_KIND, m_sort = m_sort (h ! the l),
                         expr_type = None,
                         m_members = Binary_members opcode l r \<rparr>]))"
      by (simp add: unsafe_binary_op_node)
  next
    assume asm: "\<not> is_null l \<and> \<not> is_null r"
    assume "term_sort h r = term_sort h l"
    with asm show "term_sort h r = Inr (m_sort (h ! the l))"
      by (cases l) (simp_all add: is_null_def term_sort_def)
  qed
  show ?thesis
    by (rule conjI [OF typed conjI [OF unsafe new_term_observed]])
qed

theorem binary_operator_sorts_witness:
  "wf_heap example_heap \<and> typed_term example_heap Int_t (Some 1) \<and>
   typed_term example_heap Int_t (Some 2) \<and> \<not> is_null (Some 1) \<and> \<not> is_null (Some 2) \<and>
   term_sort example_heap (Some 1) = Inr (Static_Sort Int_t) \<and>
   typed_operator LSS Int_t example_heap (Some 1) (Some 2) =
     Some (Inr (Some 4,
           example_heap @ [\<lparr> m_expr_kind = BINARY_EXPR_KIND, m_sort = Static_Sort Bool_t,
                              expr_type = Some Bool_t,
                              m_members = Binary_members LSS (Some 1) (Some 2) \<rparr>])) \<and>
   typed_operator ADD Int_t example_heap (Some 1) (Some 2) =
     Some (Inr (Some 4,
           example_heap @ [\<lparr> m_expr_kind = BINARY_EXPR_KIND, m_sort = Static_Sort Int_t,
                              expr_type = Some Int_t,
                              m_members = Binary_members ADD (Some 1) (Some 2) \<rparr>])) \<and>
   typed_operator XOR Int_t example_heap (Some 1) (Some 2) =
     Some (Inr (Some 4,
           example_heap @ [\<lparr> m_expr_kind = BINARY_EXPR_KIND, m_sort = Static_Sort Int_t,
                              expr_type = None,
                              m_members = Binary_members XOR (Some 1) (Some 2) \<rparr>])) \<and>
   unsafe_operator LSS example_heap (Some 1) (Some 2) =
     Some (Inr (Some 4,
           example_heap @ [\<lparr> m_expr_kind = BINARY_EXPR_KIND, m_sort = Static_Sort Bool_t,
                              expr_type = None,
                              m_members = Binary_members LSS (Some 1) (Some 2) \<rparr>])) \<and>
   unsafe_operator ADD example_heap (Some 1) (Some 2) =
     Some (Inr (Some 4,
           example_heap @ [\<lparr> m_expr_kind = BINARY_EXPR_KIND, m_sort = Static_Sort Int_t,
                              expr_type = None,
                              m_members = Binary_members ADD (Some 1) (Some 2) \<rparr>]))"
proof -
  have p: "wf_heap example_heap \<and> typed_term example_heap Int_t (Some 1) \<and>
     typed_term example_heap Int_t (Some 2) \<and> \<not> is_null (Some 1) \<and> \<not> is_null (Some 2)"
    using example_heap_wf by (simp add: typed_term_def is_null_def example_heap_def)
  have len: "length example_heap = 4" by (simp add: example_heap_def)
  have srt: "m_sort (example_heap ! the (Some 1)) = Static_Sort Int_t"
    by (simp add: example_heap_def)
  have r: "LSS \<in> {EQL, NEQ, LSS, LEQ, GTR, GEQ}" by simp
  have a: "ADD \<in> {ADD, SUB, MUL, QUO, REM}" by simp
  have a': "ADD \<in> {ADD, SUB, MUL, QUO, REM, AND, OR, XOR}" by simp
  have x: "XOR \<in> {AND, OR, XOR}" by simp
  have c: "(case Int_t of Bv U \<Rightarrow> Some Int_t | _ \<Rightarrow> None) = None" by simp
  note w1 = binary_operator_sorts [of example_heap Int_t "Some 1" "Some 2" LSS]
  note w2 = binary_operator_sorts [of example_heap Int_t "Some 1" "Some 2" ADD]
  note w3 = binary_operator_sorts [of example_heap Int_t "Some 1" "Some 2" XOR]
  from p r w1 have 1: "typed_operator LSS Int_t example_heap (Some 1) (Some 2) =
     Some (Inr (Some (length example_heap),
           example_heap @ [\<lparr> m_expr_kind = BINARY_EXPR_KIND, m_sort = Static_Sort Bool_t,
                              expr_type = Some Bool_t,
                              m_members = Binary_members LSS (Some 1) (Some 2) \<rparr>]))"
    and 4: "unsafe_operator LSS example_heap (Some 1) (Some 2) =
     Some (Inr (Some (length example_heap),
           example_heap @ [\<lparr> m_expr_kind = BINARY_EXPR_KIND, m_sort = Static_Sort Bool_t,
                              expr_type = None,
                              m_members = Binary_members LSS (Some 1) (Some 2) \<rparr>]))"
    and 0: "term_sort example_heap (Some 1) = Inr (Static_Sort Int_t)"
    by blast+
  from p a a' w2 have 2: "typed_operator ADD Int_t example_heap (Some 1) (Some 2) =
     Some (Inr (Some (length example_heap),
           example_heap @ [\<lparr> m_expr_kind = BINARY_EXPR_KIND, m_sort = Static_Sort Int_t,
                              expr_type = Some Int_t,
                              m_members = Binary_members ADD (Some 1) (Some 2) \<rparr>]))"
    and 5: "unsafe_operator ADD example_heap (Some 1) (Some 2) =
     Some (Inr (Some (length example_heap),
           example_heap @ [\<lparr> m_expr_kind = BINARY_EXPR_KIND,
                              m_sort = m_sort (example_heap ! the (Some 1)),
                              expr_type = None,
                              m_members = Binary_members ADD (Some 1) (Some 2) \<rparr>]))"
    by blast+
  from p x w3 have 3: "typed_operator XOR Int_t example_heap (Some 1) (Some 2) =
     Some (Inr (Some (length example_heap),
           example_heap @ [\<lparr> m_expr_kind = BINARY_EXPR_KIND, m_sort = Static_Sort Int_t,
                              expr_type = (case Int_t of Bv U \<Rightarrow> Some Int_t | _ \<Rightarrow> None),
                              m_members = Binary_members XOR (Some 1) (Some 2) \<rparr>]))"
    by blast
  from p 0 1 2 3 4 5 show ?thesis
    by (simp only: len srt c simp_thms)
qed

section \<open>The select/store law\<close>

lemma heap_values_snoc:
  "heap_values M (h @ [n]) = heap_values M h @ [node_value M (heap_values M h) n]"
  by (simp add: heap_values_def)

lemma length_heap_values:
  "length (heap_values M h) = length h"
  by (induction h rule: rev_induct) (simp_all add: heap_values_snoc, simp add: heap_values_def)

lemma term_value_old:
  "valid_term h t \<Longrightarrow> term_value M (h @ [n]) t = term_value M h t"
  by (cases t)
     (simp_all add: term_value_def operand_value_def valid_term_def heap_values_snoc
        length_heap_values nth_append)

lemma term_value_new:
  "term_value M (h @ [n]) (Some (length h)) = node_value M (heap_values M h) n"
  by (simp add: term_value_def operand_value_def heap_values_snoc length_heap_values
      nth_append)

lemma valid_term_append:
  "valid_term h t \<Longrightarrow> valid_term (h @ [n]) t"
  by (cases t) (simp_all add: valid_term_def)

lemma select_node:
  "\<not> is_null a \<Longrightarrow> \<not> is_null i \<Longrightarrow>
     ArraySelectExpr D R a i =
       Inr \<lparr> m_expr_kind = ARRAY_SELECT_EXPR_KIND, m_sort = Static_Sort R,
             expr_type = Some R, m_members = ArraySelect_members a i \<rparr>"
  by (simp add: ArraySelectExpr_def UnsafeArraySelectExpr_body_def as_Expr_def)

lemma unary_node:
  "\<not> is_null x \<Longrightarrow>
     UnaryExpr opcode T U x =
       Inr \<lparr> m_expr_kind = UNARY_EXPR_KIND, m_sort = Static_Sort U,
             expr_type = Some U, m_members = Unary_members opcode x \<rparr>"
  by (simp add: UnaryExpr_def UnsafeUnaryExpr_def as_Expr_def)

lemma store_value:
  assumes "term_value M h a = Some x" "term_value M h i = Some y" "term_value M h v = Some z"
  shows "node_value M (heap_values M h)
           \<lparr> m_expr_kind = k, m_sort = s, expr_type = e,
             m_members = ArrayStore_members a i v \<rparr> = Some (array_store_value M x y z)"
  using assms by (simp add: node_value_def term_value_def)

lemma select_value:
  assumes "term_value M h a = Some x" "term_value M h i = Some y"
  shows "node_value M (heap_values M h)
           \<lparr> m_expr_kind = k, m_sort = s, expr_type = e,
             m_members = ArraySelect_members a i \<rparr> = Some (array_select_value M x y)"
  using assms by (simp add: node_value_def term_value_def)

lemma binary_value_node:
  assumes "term_value M h l = Some x" "term_value M h r = Some y"
  shows "node_value M (heap_values M h)
           \<lparr> m_expr_kind = k, m_sort = s, expr_type = e,
             m_members = Binary_members opcode l r \<rparr> = Some (binary_value M opcode s x y)"
  using assms by (simp add: node_value_def term_value_def)

lemma unary_value_node:
  assumes "term_value M h t = Some x"
  shows "node_value M (heap_values M h)
           \<lparr> m_expr_kind = k, m_sort = s, expr_type = e,
             m_members = Unary_members opcode t \<rparr> = Some (unary_value M opcode s x)"
  using assms by (simp add: node_value_def term_value_def)

text \<open>
  C5. Let \<open>a\<close>, \<open>i\<close> and \<open>v\<close> be non-null terms of types \<^verbatim>\<open>Array<D, R>\<close>, \<open>D\<close> and \<open>R\<close>
  that have values. In every standard model the term
  \<^verbatim>\<open>select(store(a, i, v), i) == v\<close>, built by the typed builders, has the value true,
  and its negation \<^verbatim>\<open>!(select(store(a, i, v), i) == v)\<close> has the value false, so no
  standard model satisfies the negation.
\<close>

theorem select_store_law:
  "standard_model M \<and>
   typed_term h (Array D R) a \<and> typed_term h D i \<and> typed_term h R v \<and>
   \<not> is_null a \<and> \<not> is_null i \<and> \<not> is_null v \<and>
   term_value M h a \<noteq> None \<and> term_value M h i \<noteq> None \<and> term_value M h v \<noteq> None \<longrightarrow>
     (\<exists>s h1 x h2 e h3 n h4.
        store D R h a i v = Inr (s, h1) \<and>
        select D R h1 s i = Inr (x, h2) \<and>
        typed_operator EQL R h2 x v = Some (Inr (e, h3)) \<and>
        SMT_BUILTIN_BOOL_UNARY_OP LNOT h3 e = Inr (n, h4) \<and>
        term_value M h2 x = term_value M h v \<and>
        term_value M h3 e = Some (bool_value M True) \<and>
        term_value M h4 n = Some (bool_value M False) \<and>
        term_value M h4 n \<noteq> Some (bool_value M True))"
proof
  assume asm: "standard_model M \<and>
   typed_term h (Array D R) a \<and> typed_term h D i \<and> typed_term h R v \<and>
   \<not> is_null a \<and> \<not> is_null i \<and> \<not> is_null v \<and>
   term_value M h a \<noteq> None \<and> term_value M h i \<noteq> None \<and> term_value M h v \<noteq> None"
  then obtain va vi vv where
    va: "term_value M h a = Some va" and vi: "term_value M h i = Some vi" and
    vv: "term_value M h v = Some vv"
    by auto
  from asm have std: "standard_model M" by simp
  from asm have ok: "valid_term h a" "valid_term h i" "valid_term h v"
    by (auto intro: typed_term_valid)
  from asm have nn: "\<not> is_null a" "\<not> is_null i" "\<not> is_null v" by simp_all
  let ?ns = "\<lparr> m_expr_kind = ARRAY_STORE_EXPR_KIND, m_sort = Static_Sort (Array D R),
             expr_type = Some (Array D R), m_members = ArrayStore_members a i v \<rparr>"
  let ?s = "Some (length h)"
  let ?h1 = "h @ [?ns]"
  let ?nx = "\<lparr> m_expr_kind = ARRAY_SELECT_EXPR_KIND, m_sort = Static_Sort R,
             expr_type = Some R, m_members = ArraySelect_members ?s i \<rparr>"
  let ?x = "Some (length ?h1)"
  let ?h2 = "?h1 @ [?nx]"
  let ?ne = "\<lparr> m_expr_kind = BINARY_EXPR_KIND, m_sort = Static_Sort Bool_t,
             expr_type = Some Bool_t, m_members = Binary_members EQL ?x v \<rparr>"
  let ?e = "Some (length ?h2)"
  let ?h3 = "?h2 @ [?ne]"
  let ?nn = "\<lparr> m_expr_kind = UNARY_EXPR_KIND, m_sort = Static_Sort Bool_t,
             expr_type = Some Bool_t, m_members = Unary_members LNOT ?e \<rparr>"
  let ?n = "Some (length ?h3)"
  let ?h4 = "?h3 @ [?nn]"
  have b1: "store D R h a i v = Inr (?s, ?h1)"
    using nn by (simp add: store_def store_node build_Inr)
  have b2: "select D R ?h1 ?s i = Inr (?x, ?h2)"
    using nn by (simp add: select_def select_node is_null_def build_Inr)
  have b3: "typed_operator EQL R ?h2 ?x v = Some (Inr (?e, ?h3))"
    using nn by (simp add: typed_operator_rel binary_node is_null_def build_Inr)
  have b4: "SMT_BUILTIN_BOOL_UNARY_OP LNOT ?h3 ?e = Inr (?n, ?h4)"
    by (simp add: SMT_BUILTIN_BOOL_UNARY_OP_def unary_node is_null_def build_Inr)
  have s1: "term_value M ?h1 ?s = Some (array_store_value M va vi vv)"
    by (simp only: term_value_new store_value [OF va vi vv])
  have i1: "term_value M ?h1 i = Some vi"
    by (simp only: term_value_old [OF ok(2)] vi)
  have x2: "term_value M ?h2 ?x = Some (array_select_value M (array_store_value M va vi vv) vi)"
    by (simp only: term_value_new select_value [OF s1 i1])
  have row: "array_select_value M (array_store_value M va vi vv) vi = vv"
    using std by (simp add: standard_model_def)
  have v2: "term_value M ?h2 v = Some vv"
    by (simp only: term_value_old [OF valid_term_append [OF ok(3)]] term_value_old [OF ok(3)] vv)
  have x2': "term_value M ?h2 ?x = Some vv"
    using x2 row by simp
  have e3: "term_value M ?h3 ?e = Some (binary_value M EQL (Static_Sort Bool_t) vv vv)"
    by (simp only: term_value_new binary_value_node [OF x2' v2])
  have e3': "term_value M ?h3 ?e = Some (bool_value M True)"
    using e3 std by (simp add: standard_model_def)
  have n4: "term_value M ?h4 ?n = Some (unary_value M LNOT (Static_Sort Bool_t) (bool_value M True))"
    by (simp only: term_value_new unary_value_node [OF e3'])
  have n4': "term_value M ?h4 ?n = Some (bool_value M False)"
    using n4 std by (simp add: standard_model_def)
  have n4'': "term_value M ?h4 ?n \<noteq> Some (bool_value M True)"
    using n4' std by (auto simp add: standard_model_def)
  have xv: "term_value M ?h2 ?x = term_value M h v"
    using x2' vv by simp
  show "\<exists>s h1 x h2 e h3 n h4.
        store D R h a i v = Inr (s, h1) \<and>
        select D R h1 s i = Inr (x, h2) \<and>
        typed_operator EQL R h2 x v = Some (Inr (e, h3)) \<and>
        SMT_BUILTIN_BOOL_UNARY_OP LNOT h3 e = Inr (n, h4) \<and>
        term_value M h2 x = term_value M h v \<and>
        term_value M h3 e = Some (bool_value M True) \<and>
        term_value M h4 n = Some (bool_value M False) \<and>
        term_value M h4 n \<noteq> Some (bool_value M True)"
    using b1 b2 b3 b4 xv e3' n4' n4'' by blast
qed

lemma select_store_val: "select_val (store_val a i v) i = v"
  by (cases a) simp_all

lemma example_model_standard: "standard_model example_model"
proof -
  have "not_val (BoolV b) = BoolV (\<not> b)" for b by simp
  then show ?thesis
    by (simp add: standard_model_def example_model_def select_store_val)
qed

theorem select_store_law_witness:
  "standard_model example_model \<and>
   typed_term example_heap (Array Int_t Int_t) (Some 0) \<and>
   typed_term example_heap Int_t (Some 1) \<and> typed_term example_heap Int_t (Some 2) \<and>
   \<not> is_null (Some 0) \<and> \<not> is_null (Some 1) \<and> \<not> is_null (Some 2) \<and>
   term_value example_model example_heap (Some 0) = Some (ArrayV [] (IntV 0)) \<and>
   term_value example_model example_heap (Some 1) = Some (IntV 3) \<and>
   term_value example_model example_heap (Some 2) = Some (IntV 7) \<and>
   (\<exists>s h1 x h2 e h3.
        store Int_t Int_t example_heap (Some 0) (Some 1) (Some 2) = Inr (s, h1) \<and>
        select Int_t Int_t h1 s (Some 1) = Inr (x, h2) \<and>
        typed_operator EQL Int_t h2 x (Some 2) = Some (Inr (e, h3)) \<and>
        term_value example_model h3 e = Some (BoolV True))"
proof -
  have t: "typed_term example_heap (Array Int_t Int_t) (Some 0) \<and>
   typed_term example_heap Int_t (Some 1) \<and> typed_term example_heap Int_t (Some 2) \<and>
   \<not> is_null (Some 0) \<and> \<not> is_null (Some 1) \<and> \<not> is_null (Some 2)"
    by (simp add: typed_term_def is_null_def example_heap_def)
  have v: "term_value example_model example_heap (Some 0) = Some (ArrayV [] (IntV 0)) \<and>
   term_value example_model example_heap (Some 1) = Some (IntV 3) \<and>
   term_value example_model example_heap (Some 2) = Some (IntV 7)"
    by (simp add: term_value_def operand_value_def heap_values_def example_heap_def
        node_value_def example_model_def Decl_def)
  then have v': "term_value example_model example_heap (Some 0) \<noteq> None \<and>
   term_value example_model example_heap (Some 1) \<noteq> None \<and>
   term_value example_model example_heap (Some 2) \<noteq> None"
    by simp
  have b: "bool_value example_model True = BoolV True"
    by (simp add: example_model_def)
  from example_model_standard t v'
    select_store_law [of example_model example_heap Int_t Int_t "Some 0" "Some 1" "Some 2"]
  have "\<exists>s h1 x h2 e h3.
        store Int_t Int_t example_heap (Some 0) (Some 1) (Some 2) = Inr (s, h1) \<and>
        select Int_t Int_t h1 s (Some 1) = Inr (x, h2) \<and>
        typed_operator EQL Int_t h2 x (Some 2) = Some (Inr (e, h3)) \<and>
        term_value example_model h3 e = Some (bool_value example_model True)"
    by blast
  with example_model_standard t v b show ?thesis by simp
qed

section \<open>The heap invariant\<close>

text \<open>
  The property \<open>wf_heap\<close> holds of the empty heap and is kept by every builder, typed
  or unsafe: a typed node carries the registry sort of its type, an unsafe node
  has no type.
\<close>

lemma wf_heap_empty: "wf_heap []"
  by (simp add: wf_heap_def)

lemma build_wf:
  "wf_heap h \<Longrightarrow> build h r = Inr (t, h') \<Longrightarrow> (\<And>n. r = Inr n \<Longrightarrow> sorted_by_type n) \<Longrightarrow>
     wf_heap h'"
  by (cases r) (auto simp add: build_def new_def wf_heap_def)

lemma build_as_Expr_wf:
  "wf_heap h \<Longrightarrow> build h (as_Expr U r) = Inr (t, h') \<Longrightarrow> wf_heap h'"
  by (erule build_wf, assumption) (rule as_Expr_sorted)

lemma typed_builders_wf:
  assumes "wf_heap h"
  shows "literal T U x h = Inr (t, h') \<Longrightarrow> wf_heap h'"
    and "constant_term T decl h = Inr (t, h') \<Longrightarrow> wf_heap h'"
    and "apply_func Ts h decl args = Inr (t, h') \<Longrightarrow> wf_heap h'"
    and "distinct_terms T h ts = Inr (t, h') \<Longrightarrow> wf_heap h'"
    and "select D R h a i = Inr (t, h') \<Longrightarrow> wf_heap h'"
    and "store D R h a i v = Inr (t, h') \<Longrightarrow> wf_heap h'"
    and "typed_operator opcode T h l r = Some (Inr (t, h')) \<Longrightarrow> wf_heap h'"
proof -
  show "literal T U x h = Inr (t, h') \<Longrightarrow> wf_heap h'"
    unfolding literal_def LiteralExpr_def by (rule build_as_Expr_wf [OF assms])
  show "constant_term T decl h = Inr (t, h') \<Longrightarrow> wf_heap h'"
    unfolding constant_term_def ConstantExpr_def by (rule build_as_Expr_wf [OF assms])
  show "apply_func Ts h decl args = Inr (t, h') \<Longrightarrow> wf_heap h'"
    unfolding apply_func_def FuncAppExpr_def
    by (erule build_wf [OF assms]) (auto simp add: sorted_by_type_def)
  show "distinct_terms T h ts = Inr (t, h') \<Longrightarrow> wf_heap h'"
    unfolding distinct_terms_def NaryExpr_def by (rule build_as_Expr_wf [OF assms])
  show "select D R h a i = Inr (t, h') \<Longrightarrow> wf_heap h'"
    unfolding select_def ArraySelectExpr_def by (rule build_as_Expr_wf [OF assms])
  show "store D R h a i v = Inr (t, h') \<Longrightarrow> wf_heap h'"
    unfolding store_def ArrayStoreExpr_def by (rule build_as_Expr_wf [OF assms])
  show "typed_operator opcode T h l r = Some (Inr (t, h')) \<Longrightarrow> wf_heap h'"
  proof -
    assume eq: "typed_operator opcode T h l r = Some (Inr (t, h'))"
    then consider
      (typed) U where "build h (BinaryExpr opcode T U l r) = Inr (t, h')"
    | (unsafe) "SMT_UNSAFE_BINARY_OP opcode h l r = Inr (t, h')"
      by (auto simp add: typed_operator_def SMT_BUILTIN_BINARY_OP_def
          SMT_BUILTIN_BINARY_REL_def SMT_BUILTIN_BOOL_BINARY_OP_def
          SMT_BUILTIN_BV_BINARY_OP_def split: if_splits smt_type.splits)
    then show "wf_heap h'"
    proof cases
      case typed
      then show ?thesis
        unfolding BinaryExpr_def by (rule build_as_Expr_wf [OF assms])
    next
      case unsafe
      then obtain s where b: "build h (UnsafeBinaryExpr s opcode l r) = Inr (t, h')"
        by (auto simp add: SMT_UNSAFE_BINARY_OP_def split: sum.splits)
      show ?thesis
        by (rule build_wf [OF assms b])
           (auto simp add: UnsafeBinaryExpr_def sorted_by_type_def split: if_splits)
    qed
  qed
qed

lemma unsafe_operator_wf:
  assumes "wf_heap h" and "unsafe_operator opcode h l r = Some (Inr (t, h'))"
  shows "wf_heap h'"
proof -
  from assms(2) obtain s where b: "build h (UnsafeBinaryExpr s opcode l r) = Inr (t, h')"
    by (auto simp add: unsafe_operator_def SMT_UNSAFE_BINARY_OP_def
        SMT_UNSAFE_BINARY_REL_def split: if_splits sum.splits)
  show ?thesis
    by (rule build_wf [OF assms(1) b])
       (auto simp add: UnsafeBinaryExpr_def sorted_by_type_def split: if_splits)
qed

end
